theory Spec2Isabelle
  imports Main "HOL-Library.Multiset"
begin

section \<open>Data model of the provider SDK\<close>

text \<open>
  The SDK (\<^verbatim>\<open>src/lib/server.ts\<close>, \<^verbatim>\<open>src/lib/common.ts\<close>) talks to two contracts: \<^verbatim>\<open>ethPN\<close>
  on the primary chain and \<^verbatim>\<open>appPN\<close> on the application chain. Addresses, hashes and
  signatures are hex strings. Every amount and nonce the contracts return is a decimal
  string that the code converts with \<^verbatim>\<open>web3.utils.toBN\<close> into an arbitrary-precision signed
  integer, so amounts and nonces are \<^typ>\<open>int\<close> here.
\<close>

type_synonym address = string
type_synonym bytes32 = string
type_synonym hexstr = string

text \<open>The fields of \<^verbatim>\<open>appPN.methods.channelMap(channelID).call()\<close> that the code reads.\<close>

record channel_info =
  ch_status :: int
  ch_token :: address

text \<open>The fields of \<^verbatim>\<open>paymentNetworkMap(token)\<close> read by the operations.\<close>

record payment_network =
  providerBalance :: int
  providerOnchainBalance :: int

text \<open>
  \<^verbatim>\<open>rebalanceProofMap(channelID)\<close>: \<^verbatim>\<open>ProposeReBalance\<close> reads the properties \<^verbatim>\<open>amount\<close> and
  \<^verbatim>\<open>nonce\<close> of the result, \<^verbatim>\<open>CloseChannel\<close> reads \<^verbatim>\<open>inAmount\<close>, \<^verbatim>\<open>inNonce\<close>,
  \<^verbatim>\<open>regulatorSignature\<close> and \<^verbatim>\<open>inProviderSignature\<close>. The record has a field for each
  property that is read.
\<close>

record rebalance_proof =
  rp_amount :: int
  rp_nonce :: int
  rp_inAmount :: int
  rp_inNonce :: int
  rp_regulatorSignature :: hexstr
  rp_inProviderSignature :: hexstr

text \<open>\<^verbatim>\<open>balanceProofMap(channelID, address)\<close>.\<close>

record balance_proof =
  bp_balance :: int
  bp_nonce :: int
  bp_additionalHash :: bytes32
  bp_partnerSignature :: hexstr

text \<open>\<^verbatim>\<open>feeProofMap(token)\<close>.\<close>

record fee_proof =
  fp_amount :: int
  fp_nonce :: int

text \<open>
  The transaction object of \<^verbatim>\<open>Common.BuildAppChainTX\<close>: \<^verbatim>\<open>TX_BASE\<close> (a constant of
  \<^verbatim>\<open>conf/contract\<close>) extended with the provider's key and address and with
  \<^verbatim>\<open>validUntilBlock\<close>. The record keeps the two fields the function computes.
\<close>

record app_tx =
  tx_from :: address
  validUntilBlock :: int

text \<open>
  The object passed to \<^verbatim>\<open>signHash\<close> (module \<^verbatim>\<open>./sign\<close>) by \<^verbatim>\<open>SendAsset\<close>.
\<close>

record transfer_msg =
  msg_channelID :: bytes32
  msg_balance :: int
  msg_nonce :: int
  msg_additionalHash :: bytes32

text \<open>
  A typed argument of \<^verbatim>\<open>web3.utils.soliditySha3\<close>: \<^verbatim>\<open>{v: ..., t: 'address'}\<close> and so on.
  A \<^verbatim>\<open>uint256\<close> is passed either as a decimal string (\<open>Sol_uint256\<close>) or as a JavaScript
  number (\<open>Sol_uint256_number\<close>).
\<close>

datatype sol_value =
    Sol_address address
  | Sol_bytes32 bytes32
  | Sol_uint256 int
  | Sol_uint256_number int

text \<open>Method calls on the application-chain contract that are sent as transactions.\<close>

datatype app_method =
    providerProposeWithdraw_call address int int
  | proposeRebalance_call bytes32 int int hexstr
  | transfer_call address bytes32 int int bytes32 hexstr
  | submitFee_call bytes32 address int int hexstr

text \<open>Call data (\<^verbatim>\<open>encodeABI()\<close>) of transactions for the primary chain.\<close>

datatype eth_data =
    providerDeposit_data address int
  | approve_data address int
  | closeChannel_data bytes32 int int bytes32 hexstr int int hexstr hexstr

text \<open>
  \<^verbatim>\<open>rawTx\<close> of \<^verbatim>\<open>Common.SendEthTransaction\<close>. Its fields \<^verbatim>\<open>nonce\<close>, \<^verbatim>\<open>chainId\<close> and
  \<^verbatim>\<open>gasPrice\<close> are read from the node when the transaction is built and are left out.
\<close>

record raw_tx =
  rt_from :: address
  rt_to :: address
  rt_data :: eth_data
  rt_value :: int
  rt_gasLimit :: int

text \<open>The normalized event handed to the \<^verbatim>\<open>Transfer\<close> callback.\<close>

record TRANSFER_EVENT =
  te_from :: address
  te_to :: address
  te_token :: address
  te_amount :: int
  te_additionalHash :: bytes32
  te_totalTransferredAmount :: int

text \<open>
  Every interaction with a chain, in the order the code performs it. The first block are
  read-only queries, the second block submits a transaction or waits for its receipt.
  \<^verbatim>\<open>Common.SendAppChainTX\<close> is called by the event handlers and is not part of
  \<^verbatim>\<open>common.ts\<close> as given; the call itself is recorded.
\<close>

datatype chain_op =
    Eth_getChannelID address address
  | App_channelMap bytes32
  | App_paymentNetworkMap address
  | App_rebalanceProofMap bytes32
  | App_balanceProofMap bytes32 address
  | App_feeProofMap address
  | App_feeRateMap address
  | Eth_getBlockNumber
  | App_getBlockNumber
  | App_send app_method app_tx
  | App_listenToTransactionReceipt hexstr
  | Eth_sendSignedTransaction raw_tx
  | SendAppChainTX app_method
  | Callback_Transfer TRANSFER_EVENT

fun is_submission :: "chain_op \<Rightarrow> bool" where
  "is_submission (App_send m tx) = True"
| "is_submission (Eth_sendSignedTransaction r) = True"
| "is_submission (SendAppChainTX m) = True"
| "is_submission other = False"

text \<open>
  What an \<^verbatim>\<open>async\<close> method does for its caller: its promise resolves with a value,
  rejects with a thrown error, or never settles.
\<close>

datatype js_value = JFalse | JString string | JUndefined

datatype promise = Resolved js_value | Rejected string | Pending

text \<open>What \<^verbatim>\<open>web3.eth.sendSignedTransaction\<close> emits first.\<close>

datatype broadcast = TransactionHash hexstr | BroadcastError string

text \<open>
  The environment of one operation: the constants of \<^verbatim>\<open>conf/contract\<close>, the module
  variables of \<^verbatim>\<open>server.ts\<close>, the state of the two chains as the read-only queries see
  it, the hashing and signing functions (\<open>sha3_packed\<close> is the hash of the packed encoding
  of well-formed arguments), and what the chains answer to a submission.
  One operation sees one state: the queries of a single call are answered from the same
  environment.
\<close>

record env =
  ADDRESS_ZERO :: address
  CHANNEL_STATUS_OPEN :: int
  COMMIT_BLOCK_CONDITION :: int
  ethPN_address :: address
  cpProvider_address :: address
  getChannelID :: "address \<Rightarrow> address \<Rightarrow> bytes32"
  channelMap :: "bytes32 \<Rightarrow> channel_info"
  paymentNetworkMap :: "address \<Rightarrow> payment_network"
  rebalanceProofMap :: "bytes32 \<Rightarrow> rebalance_proof"
  balanceProofMap :: "bytes32 \<Rightarrow> address \<Rightarrow> balance_proof"
  feeProofMap :: "address \<Rightarrow> fee_proof"
  feeRateMap :: "address \<Rightarrow> int"
  eth_getBlockNumber :: int
  cita_getBlockNumber :: int
  sha3_packed :: "sol_value list \<Rightarrow> hexstr"
  signHash :: "transfer_msg \<Rightarrow> hexstr"
  ecsign :: "hexstr \<Rightarrow> hexstr"
  callback_Transfer_set :: bool
  send_hash :: "app_method \<Rightarrow> app_tx \<Rightarrow> hexstr option"
  receipt_errorMessage :: "hexstr \<Rightarrow> string option"
  sendSignedTransaction :: "raw_tx \<Rightarrow> broadcast"

section \<open>Numbers and hashing in the libraries\<close>

text \<open>\<^verbatim>\<open>bitLength()\<close> of the big-number library: the number of bits of the magnitude.\<close>

fun bitLength :: "nat \<Rightarrow> nat" where
  "bitLength n = (if n = 0 then 0 else Suc (bitLength (n div 2)))"

declare bitLength.simps [simp del]

text \<open>\<^verbatim>\<open>toString()\<close> of an integer: its decimal digits, with a minus sign when negative.\<close>

fun string_of_nat :: "nat \<Rightarrow> string" where
  "string_of_nat n =
     (if n < 10 then [''0123456789'' ! n]
      else string_of_nat (n div 10) @ [''0123456789'' ! (n mod 10)])"

declare string_of_nat.simps [simp del]

definition string_of_int :: "int \<Rightarrow> string" where
  "string_of_int i = (if i < 0 then ''-'' @ string_of_nat (nat (- i)) else string_of_nat (nat i))"

text \<open>
  What \<^verbatim>\<open>soliditySha3\<close> throws for an argument of type \<^verbatim>\<open>uint256\<close>: the value must fit into
  256 bits and must not be negative (the width is checked first).
\<close>

definition uint256_error :: "int \<Rightarrow> string option" where
  "uint256_error v =
     (if 256 < bitLength (nat \<bar>v\<bar>)
      then Some (''Supplied uint exceeds width: 256 vs '' @ string_of_nat (bitLength (nat \<bar>v\<bar>)))
      else if v < 0 then Some (''Supplied uint '' @ string_of_int v @ '' is negative'')
      else None)"

text \<open>
  The error for one argument. A JavaScript number is first turned into a big number, which
  fails an assertion from \<open>2\<^sup>5\<^sup>3\<close> on. The addresses and the \<^verbatim>\<open>bytes32\<close> values that the code
  hashes are the address of the contract object and values decoded from contract calls and
  events; they are taken to be well-formed.
\<close>

fun solidityPack_error :: "sol_value \<Rightarrow> string option" where
  "solidityPack_error (Sol_address a) = None"
| "solidityPack_error (Sol_bytes32 b) = None"
| "solidityPack_error (Sol_uint256 v) = uint256_error v"
| "solidityPack_error (Sol_uint256_number v) =
     (if 2 ^ 53 \<le> \<bar>v\<bar> then Some ''Assertion failed'' else uint256_error v)"

text \<open>The arguments are packed in order: the first error is the one thrown.\<close>

fun first_error :: "sol_value list \<Rightarrow> string option" where
  "first_error [] = None"
| "first_error (v # vs) =
     (case solidityPack_error v of Some err \<Rightarrow> Some err | None \<Rightarrow> first_error vs)"

text \<open>\<^verbatim>\<open>web3.utils.soliditySha3(...)\<close>: the thrown error, or the hash.\<close>

definition soliditySha3 :: "env \<Rightarrow> sol_value list \<Rightarrow> string + hexstr" where
  "soliditySha3 e args =
     (case first_error args of Some err \<Rightarrow> Inl err | None \<Rightarrow> Inr (sha3_packed e args))"

text \<open>
  The double-precision number nearest to an integer (ties to even), for magnitudes in the
  range of \<^verbatim>\<open>uint256\<close>: \<^verbatim>\<open>Number(s)\<close> of a decimal string, and the rounding of a sum.
\<close>

definition round_double :: "int \<Rightarrow> int" where
  "round_double n =
     (let m = nat \<bar>n\<bar>;
          k = bitLength m - 53
      in if k = 0 then n
         else
           let q = m div 2 ^ k;
               r = m mod 2 ^ k;
               half = 2 ^ (k - 1);
               q' = (if half < r then q + 1 else if r = half \<and> odd q then q + 1 else q)
           in sgn n * int (q' * 2 ^ k))"

section \<open>Helpers of \<^verbatim>\<open>common.ts\<close>\<close>

text \<open>JavaScript truthiness of a possibly missing string: \<^verbatim>\<open>undefined\<close> and \<^verbatim>\<open>''\<close> are falsy.\<close>

fun truthy :: "string option \<Rightarrow> bool" where
  "truthy None = False"
| "truthy (Some s) = (s \<noteq> [])"

text \<open>
  \<^verbatim>\<open>chain === 'eth' ? await web3.eth.getBlockNumber() + COMMIT_BLOCK_CONDITION
                   : await CITA.base.getBlockNumber() + 88\<close>
\<close>

definition GetLastCommitBlock :: "env \<Rightarrow> string \<Rightarrow> int \<times> chain_op list" where
  "GetLastCommitBlock e chain =
     (if chain = ''eth'' then (eth_getBlockNumber e + COMMIT_BLOCK_CONDITION e, [Eth_getBlockNumber])
      else (cita_getBlockNumber e + 88, [App_getBlockNumber]))"

definition BuildAppChainTX :: "env \<Rightarrow> app_tx \<times> chain_op list" where
  "BuildAppChainTX e =
     (let (b, tr) = GetLastCommitBlock e ''cita''
      in (\<lparr>tx_from = cpProvider_address e, validUntilBlock = b\<rparr>, tr))"

text \<open>
  \<^verbatim>\<open>Common.SignatureToHex(messageHash)\<close> signs the hash with the provider's private key
  (\<^verbatim>\<open>ethUtil.ecsign\<close>); the signing function of the key is a parameter of the environment.
\<close>

definition SignatureToHex :: "env \<Rightarrow> hexstr \<Rightarrow> hexstr" where
  "SignatureToHex e messageHash = ecsign e messageHash"

text \<open>
  \<^verbatim>\<open>Common.SendEthTransaction\<close>: the returned promise resolves with the hash when the
  node emits \<^verbatim>\<open>transactionHash\<close>. The \<^verbatim>\<open>error\<close> handler and the \<^verbatim>\<open>catch\<close> block are
  empty (\<^verbatim>\<open>reject\<close> is commented out), so after a failed broadcast the promise never
  settles. \<^verbatim>\<open>gasLimit\<close> is the constant 300000.
\<close>

definition SendEthTransaction ::
    "env \<Rightarrow> address \<Rightarrow> address \<Rightarrow> int \<Rightarrow> eth_data \<Rightarrow> promise \<times> chain_op list" where
  "SendEthTransaction e from to val data =
     (let rawTx = \<lparr>rt_from = from, rt_to = to, rt_data = data, rt_value = val, rt_gasLimit = 300000\<rparr>
      in (case sendSignedTransaction e rawTx of
            TransactionHash h \<Rightarrow> (Resolved (JString h), [Eth_sendSignedTransaction rawTx])
          | BroadcastError err \<Rightarrow> (Pending, [Eth_sendSignedTransaction rawTx])))"

text \<open>What the promise of \<^verbatim>\<open>SendEthTransaction\<close> does with the outcome of the broadcast.\<close>

definition settle :: "broadcast \<Rightarrow> promise" where
  "settle b = (case b of TransactionHash h \<Rightarrow> Resolved (JString h) | BroadcastError err \<Rightarrow> Pending)"

text \<open>The transactions broadcast to the primary chain, in order.\<close>

fun sent_raw :: "chain_op list \<Rightarrow> raw_tx list" where
  "sent_raw [] = []"
| "sent_raw (Eth_sendSignedTransaction r # ops) = r # sent_raw ops"
| "sent_raw (other # ops) = sent_raw ops"

text \<open>
  The tail shared by \<^verbatim>\<open>ProposeWithdraw\<close>, \<^verbatim>\<open>ProposeReBalance\<close> and \<^verbatim>\<open>SendAsset\<close>:
  \<^verbatim>\<open>let rs = await appPN.methods.m(...).send(tx); if (rs.hash) { receipt = await
  CITA.listeners.listenToTransactionReceipt(rs.hash); if (!receipt.errorMessage) return
  'confirm success' else return 'confirm fail' } else return 'send CITA tx fail'\<close>.
\<close>

definition send_and_listen :: "env \<Rightarrow> app_method \<Rightarrow> app_tx \<Rightarrow> promise \<times> chain_op list" where
  "send_and_listen e m tx =
     (case send_hash e m tx of
        None \<Rightarrow> (Resolved (JString ''send CITA tx fail''), [App_send m tx])
      | Some h \<Rightarrow>
          if h = [] then (Resolved (JString ''send CITA tx fail''), [App_send m tx])
          else if truthy (receipt_errorMessage e h)
          then (Resolved (JString ''confirm fail''),
                [App_send m tx, App_listenToTransactionReceipt h])
          else (Resolved (JString ''confirm success''),
                [App_send m tx, App_listenToTransactionReceipt h]))"

section \<open>Operations of the SDK\<close>

subsection \<open>\<^verbatim>\<open>ProposeWithdraw\<close>\<close>

definition ProposeWithdraw :: "env \<Rightarrow> int \<Rightarrow> address \<Rightarrow> promise \<times> chain_op list" where
  "ProposeWithdraw e amount token =
     (let amountBN = amount;
          pn = paymentNetworkMap e token;
          tr1 = [App_paymentNetworkMap token];
          onChainBalanceBN = providerOnchainBalance pn;
          balanceBN = providerBalance pn
      in if amountBN > onChainBalanceBN then (Resolved JFalse, tr1)
         else
           let balance = providerOnchainBalance pn - amount
           in if balance > balanceBN then (Resolved JFalse, tr1)
              else
                let (tx, tr2) = BuildAppChainTX e;
                    (lastCommitBlock, tr3) = GetLastCommitBlock e ''eth'';
                    (r, tr4) = send_and_listen e
                                 (providerProposeWithdraw_call token balance lastCommitBlock) tx
                in (r, tr1 @ tr2 @ tr3 @ tr4))"

subsection \<open>\<^verbatim>\<open>ProposeReBalance\<close>\<close>

text \<open>
  The new amount and the new nonce are hashed as \<^verbatim>\<open>uint256\<close>: when \<^verbatim>\<open>soliditySha3\<close> throws,
  the method rejects before anything is signed or sent.
\<close>

definition ProposeReBalance :: "env \<Rightarrow> address \<Rightarrow> int \<Rightarrow> address \<Rightarrow> promise \<times> chain_op list" where
  "ProposeReBalance e userAddress amount token =
     (let channelID = getChannelID e userAddress token;
          channel = channelMap e channelID;
          tr1 = [Eth_getChannelID userAddress token, App_channelMap channelID]
      in if ch_status channel \<noteq> CHANNEL_STATUS_OPEN e
         then (Rejected ''channel status is not open'', tr1)
         else
           let amountBN = amount;
               providerBalanceBN = providerBalance (paymentNetworkMap e token);
               rp = rebalanceProofMap e channelID;
               balanceBN = rp_amount rp;
               tr2 = [App_paymentNetworkMap token, App_rebalanceProofMap channelID]
           in if amountBN - balanceBN > providerBalanceBN then (Resolved JFalse, tr1 @ tr2)
              else
                let reBalanceAmountBN = balanceBN + amountBN;
                    nonce = rp_nonce rp + 1
                in (case soliditySha3 e
                           [Sol_address (ethPN_address e), Sol_bytes32 channelID,
                            Sol_uint256 reBalanceAmountBN, Sol_uint256 nonce] of
                      Inl err \<Rightarrow> (Rejected err, tr1 @ tr2)
                    | Inr messageHash \<Rightarrow>
                        let signature = SignatureToHex e messageHash;
                            (tx, tr3) = BuildAppChainTX e;
                            (r, tr4) = send_and_listen e
                              (proposeRebalance_call channelID reBalanceAmountBN nonce signature) tx
                        in (r, tr1 @ tr2 @ tr3 @ tr4)))"

subsection \<open>\<^verbatim>\<open>CloseChannel\<close>\<close>

text \<open>
  The method has no \<^verbatim>\<open>return\<close>: once the transaction hash has arrived it resolves with
  \<^verbatim>\<open>undefined\<close>.
\<close>

definition CloseChannel :: "env \<Rightarrow> address \<Rightarrow> address \<Rightarrow> promise \<times> chain_op list" where
  "CloseChannel e userAddress token =
     (let channelID = getChannelID e userAddress token;
          channel = channelMap e channelID;
          tr1 = [Eth_getChannelID userAddress token, App_channelMap channelID]
      in if ch_status channel \<noteq> CHANNEL_STATUS_OPEN e
         then (Rejected ''channel status is not open'', tr1)
         else
           let bp = balanceProofMap e channelID (cpProvider_address e);
               rp = rebalanceProofMap e channelID;
               tr2 = [App_balanceProofMap channelID (cpProvider_address e),
                      App_rebalanceProofMap channelID];
               data = closeChannel_data channelID (bp_balance bp) (bp_nonce bp)
                        (bp_additionalHash bp) (bp_partnerSignature bp) (rp_inAmount rp)
                        (rp_inNonce rp) (rp_regulatorSignature rp) (rp_inProviderSignature rp);
               (hash, tr3) = SendEthTransaction e (cpProvider_address e) (ethPN_address e) 0 data
           in (case hash of
                 Resolved h \<Rightarrow> (Resolved JUndefined, tr1 @ tr2 @ tr3)
               | Rejected err \<Rightarrow> (Rejected err, tr1 @ tr2 @ tr3)
               | Pending \<Rightarrow> (Pending, tr1 @ tr2 @ tr3)))"

subsection \<open>\<^verbatim>\<open>SendAsset\<close>\<close>

definition SendAsset :: "env \<Rightarrow> address \<Rightarrow> int \<Rightarrow> address \<Rightarrow> promise \<times> chain_op list" where
  "SendAsset e to amount token =
     (let channelID = getChannelID e to token;
          channel = channelMap e channelID;
          tr1 = [Eth_getChannelID to token, App_channelMap channelID]
      in if ch_status channel \<noteq> CHANNEL_STATUS_OPEN e
         then (Rejected ''channel status is not open'', tr1)
         else
           let (tx, tr2) = BuildAppChainTX e;
               amountBN = amount;
               bp = balanceProofMap e channelID to;
               tr3 = [App_balanceProofMap channelID to];
               balanceBN = bp_balance bp;
               assetAmountBN = amountBN + balanceBN;
               nonce = bp_nonce bp + 1;
               additionalHash = ''0x0'';
               messageHash = signHash e
                 \<lparr>msg_channelID = channelID, msg_balance = assetAmountBN, msg_nonce = nonce,
                  msg_additionalHash = additionalHash\<rparr>;
               signature = SignatureToHex e messageHash;
               (r, tr4) = send_and_listen e
                            (transfer_call to channelID assetAmountBN nonce additionalHash signature) tx
           in (r, tr1 @ tr2 @ tr3 @ tr4))"

subsection \<open>\<^verbatim>\<open>Deposit\<close>\<close>

definition Deposit :: "env \<Rightarrow> int \<Rightarrow> address \<Rightarrow> promise \<times> chain_op list" where
  "Deposit e amount token =
     (let amountBN = amount;
          data = providerDeposit_data token amountBN
      in if token \<noteq> ADDRESS_ZERO e then
           let erc20Data = approve_data (ethPN_address e) amountBN;
               (approved, tr1) =
                 SendEthTransaction e (cpProvider_address e) (ethPN_address e) 0 erc20Data
           in (case approved of
                 Resolved h \<Rightarrow>
                   let (hash, tr2) =
                         SendEthTransaction e (cpProvider_address e) (ethPN_address e) 0 data
                   in (hash, tr1 @ tr2)
               | Rejected err \<Rightarrow> (Rejected err, tr1)
               | Pending \<Rightarrow> (Pending, tr1))
         else SendEthTransaction e (cpProvider_address e) (ethPN_address e) amountBN data)"

subsection \<open>\<^verbatim>\<open>GetAllTXs\<close>\<close>

text \<open>
  An event object as \<^verbatim>\<open>getPastEvents\<close> returns it. Its own properties are
  \<^verbatim>\<open>transactionHash\<close>, the properties that hold a number (\<^verbatim>\<open>blockNumber\<close>, \<^verbatim>\<open>logIndex\<close>,
  \<^verbatim>\<open>transactionIndex\<close>), listed by name, and \<^verbatim>\<open>returnValues\<close>, which holds the fields of
  the event: \<^verbatim>\<open>channelID\<close>, \<^verbatim>\<open>balance\<close> and the remaining ones, as strings by name.
\<close>

record past_event =
  pe_transactionHash :: hexstr
  pe_numbers :: "(string \<times> int) list"
  pe_channelID :: bytes32
  pe_balance :: int
  pe_rest :: "(string \<times> string) list"

text \<open>An entry of the result: \<^verbatim>\<open>{id: tx.transactionHash, amount, ...rest}\<close>.\<close>

record tx_entry =
  tx_id :: hexstr
  tx_amount :: int
  tx_rest :: "(string \<times> string) list"

text \<open>
  \<^verbatim>\<open>cmpNonce(key)\<close> is \<^verbatim>\<open>(a, b) => a[key] - b[key]\<close>: the property \<^verbatim>\<open>key\<close> of the event
  object itself, not of its \<^verbatim>\<open>returnValues\<close>. When either object has no number under
  that name the difference is \<^verbatim>\<open>NaN\<close>, here \<open>None\<close>.
\<close>

definition cmpNonce :: "string \<Rightarrow> past_event \<Rightarrow> past_event \<Rightarrow> int option" where
  "cmpNonce key a b =
     (case map_of (pe_numbers a) key of
        None \<Rightarrow> None
      | Some x \<Rightarrow> (case map_of (pe_numbers b) key of None \<Rightarrow> None | Some y \<Rightarrow> Some (x - y)))"

text \<open>
  \<^verbatim>\<open>Array.prototype.sort(compareFn)\<close>: a stable sort; \<^verbatim>\<open>a\<close> stays before \<^verbatim>\<open>b\<close> when
  \<^verbatim>\<open>compareFn(a, b) <= 0\<close>, and a result \<^verbatim>\<open>NaN\<close> counts as 0.
\<close>

fun js_insert :: "('a \<Rightarrow> 'a \<Rightarrow> int option) \<Rightarrow> 'a \<Rightarrow> 'a list \<Rightarrow> 'a list" where
  "js_insert cmp x [] = [x]"
| "js_insert cmp x (y # ys) =
     (if (case cmp x y of None \<Rightarrow> 0 | Some v \<Rightarrow> v) \<le> 0 then x # y # ys
      else y # js_insert cmp x ys)"

fun js_sort :: "('a \<Rightarrow> 'a \<Rightarrow> int option) \<Rightarrow> 'a list \<Rightarrow> 'a list" where
  "js_sort cmp [] = []"
| "js_sort cmp (x # xs) = js_insert cmp x (js_sort cmp xs)"

text \<open>
  \<^verbatim>\<open>getTX\<close> reads and overwrites the variable \<^verbatim>\<open>lastBalance\<close> of the enclosing call: it
  takes the value of the variable and returns the entry with the new value.
\<close>

definition getTX :: "int \<Rightarrow> past_event \<Rightarrow> tx_entry \<times> int" where
  "getTX lastBalance tx =
     (let balance = pe_balance tx;
          amount = balance - lastBalance
      in (\<lparr>tx_id = pe_transactionHash tx, tx_amount = amount, tx_rest = pe_rest tx\<rparr>, balance))"

text \<open>\<^verbatim>\<open>txs.map(tx => getTX(tx))\<close>, threading \<^verbatim>\<open>lastBalance\<close>.\<close>

fun map_getTX :: "int \<Rightarrow> past_event list \<Rightarrow> tx_entry list \<times> int" where
  "map_getTX lastBalance [] = ([], lastBalance)"
| "map_getTX lastBalance (tx # txs) =
     (let (r, lastBalance1) = getTX lastBalance tx;
          (rs, lastBalance2) = map_getTX lastBalance1 txs
      in (r # rs, lastBalance2))"

text \<open>
  \<^verbatim>\<open>inTXs\<close> and \<^verbatim>\<open>outTXs\<close> are the results of the two \<^verbatim>\<open>getPastEvents('Transfer', ...)\<close>
  queries. The parameter \<^verbatim>\<open>token\<close> is not used by the body.
\<close>

definition GetAllTXs :: "past_event list \<Rightarrow> past_event list \<Rightarrow> address \<Rightarrow> tx_entry list \<times> tx_entry list" where
  "GetAllTXs inTXs outTXs token =
     (let lastBalance = 0;
          (ins, lastBalance1) = map_getTX lastBalance (js_sort (cmpNonce ''nonce'') inTXs);
          (outs, lastBalance2) = map_getTX lastBalance1 (js_sort (cmpNonce ''nonce'') outTXs)
      in (ins, outs))"

section \<open>The handler of the application chain's \<^verbatim>\<open>Transfer\<close> event\<close>

record Transfer_returnValues =
  rv_from :: address
  rv_to :: address
  rv_channelID :: bytes32
  rv_balance :: int
  rv_transferAmount :: int
  rv_additionalHash :: bytes32

text \<open>
  \<^verbatim>\<open>a.div(b)\<close> of the big-number library behind \<^verbatim>\<open>web3.utils.toBN\<close>: the quotient of the
  absolute values, negated when exactly one operand is negative (the library refuses a
  zero divisor; the handler divides by 10000).
\<close>

definition bn_div :: "int \<Rightarrow> int \<Rightarrow> int" where
  "bn_div a b = (if (a < 0) = (b < 0) then \<bar>a\<bar> div \<bar>b\<bar> else - (\<bar>a\<bar> div \<bar>b\<bar>))"

text \<open>
  \<^verbatim>\<open>CITA_EVENTS.Transfer.handler\<close>. The fee nonce is \<^verbatim>\<open>Number(road) + 1\<close>, a sum in double
  precision, and is hashed as a JavaScript number; the fee amount is hashed as a decimal
  string. When \<^verbatim>\<open>soliditySha3\<close> throws, the handler rejects and hands nothing to the
  submitter. A registered callback is assumed to return normally.
\<close>

definition Transfer_handler :: "env \<Rightarrow> Transfer_returnValues \<Rightarrow> promise \<times> chain_op list" where
  "Transfer_handler e ev =
     (let channelID = rv_channelID ev;
          balance = rv_balance ev;
          additionalHash = rv_additionalHash ev;
          channel = channelMap e channelID;
          token = ch_token channel;
          tr1 = [App_channelMap channelID];
          assetEvent = \<lparr>te_from = rv_from ev, te_to = rv_to ev, te_token = token,
                        te_amount = rv_transferAmount ev, te_additionalHash = additionalHash,
                        te_totalTransferredAmount = balance\<rparr>;
          tr2 = (if callback_Transfer_set e \<and> additionalHash =
                      ''0x0000000000000000000000000000000000000000000000000000000000000000''
                 then [Callback_Transfer assetEvent] else []);
          feeProofAmount = fp_amount (feeProofMap e token);
          road = fp_nonce (feeProofMap e token);
          feeRate = feeRateMap e token;
          tr3 = [App_feeProofMap token, App_feeRateMap token]
      in if feeRate = 0 then (Resolved JUndefined, tr1 @ tr2 @ tr3)
         else
           let amount = bp_balance (balanceProofMap e channelID (cpProvider_address e));
               tr4 = [App_balanceProofMap channelID (cpProvider_address e)];
               feeAmount = feeProofAmount + bn_div (feeRate * (balance - amount)) 10000;
               feeNonce = round_double (round_double road + 1)
           in (case soliditySha3 e
                      [Sol_address (ethPN_address e), Sol_address token,
                       Sol_uint256 feeAmount, Sol_uint256_number feeNonce] of
                 Inl err \<Rightarrow> (Rejected err, tr1 @ tr2 @ tr3 @ tr4)
               | Inr messageHash \<Rightarrow>
                   let signature = SignatureToHex e messageHash
                   in (Resolved JUndefined,
                       tr1 @ tr2 @ tr3 @ tr4 @
                       [SendAppChainTX
                          (submitFee_call channelID token feeAmount feeNonce signature)])))"

section \<open>The poller \<^verbatim>\<open>HttpWatcher\<close>\<close>

text \<open>
  An event as the poller reads it: its name \<^verbatim>\<open>event.event\<close>, its \<^verbatim>\<open>returnValues\<close> as a
  list of properties, and its transaction hash.
\<close>

record chain_event =
  ev_event :: string
  ev_returnValues :: "(string \<times> string) list"
  ev_transactionHash :: hexstr

text \<open>
  An entry of a listener table: the object its \<^verbatim>\<open>filter()\<close> returns, and the promise its
  \<^verbatim>\<open>async\<close> handler returns for an event.
\<close>

record listener_setting =
  ls_filter :: "(string \<times> string) list"
  ls_handler :: "chain_event \<Rightarrow> promise"

text \<open>
  A watch item: \<^verbatim>\<open>contract.getPastEvents("allEvents", {fromBlock, toBlock})\<close> and the table
  \<^verbatim>\<open>listener\<close> from event names to settings.
\<close>

record watchItem =
  wi_getPastEvents :: "int \<Rightarrow> int \<Rightarrow> chain_event list"
  wi_listener :: "string \<Rightarrow> listener_setting option"

record HttpWatcher =
  hw_enabled :: bool
  hw_provider :: string
  hw_blockInterval :: int
  hw_watchList :: "watchItem list"

text \<open>\<^verbatim>\<open>String.prototype.toLowerCase\<close> on the ASCII letters of a hex string.\<close>

definition lower_char :: "char \<Rightarrow> char" where
  "lower_char c =
     (let n = (of_char c :: nat) in if 65 \<le> n \<and> n \<le> 90 then char_of (n + 32) else c)"

definition toLowerCase :: "string \<Rightarrow> string" where
  "toLowerCase s = map lower_char s"

text \<open>
  The loop \<^verbatim>\<open>for (let k in filter)\<close> of \<^verbatim>\<open>processAllEvent\<close>: the result is \<^verbatim>\<open>false\<close> at the
  first key whose return value is missing, empty or different when both are lowered.
\<close>

fun filterResult :: "(string \<times> string) list \<Rightarrow> (string \<times> string) list \<Rightarrow> bool" where
  "filterResult [] returnValues = True"
| "filterResult ((k, v) # fs) returnValues =
     (case map_of returnValues k of
        None \<Rightarrow> False
      | Some r \<Rightarrow>
          if r = [] then False
          else if toLowerCase r \<noteq> toLowerCase v then False
          else filterResult fs returnValues)"

text \<open>
  The loop \<^verbatim>\<open>for (let event of events)\<close> of \<^verbatim>\<open>processAllEvent\<close>. The handler is awaited
  outside any \<^verbatim>\<open>try\<close>: when its promise rejects, the exception leaves the loop and
  \<^verbatim>\<open>processAllEvent\<close> rejects; when it never settles, neither does \<^verbatim>\<open>processAllEvent\<close>.
  The result lists the events whose handler was called.
\<close>

fun processAllEvent_loop :: "watchItem \<Rightarrow> chain_event list \<Rightarrow> chain_event list \<times> promise" where
  "processAllEvent_loop watchItem [] = ([], Resolved JUndefined)"
| "processAllEvent_loop watchItem (event # events) =
     (case wi_listener watchItem (ev_event event) of
        None \<Rightarrow> processAllEvent_loop watchItem events
      | Some setting \<Rightarrow>
          if filterResult (ls_filter setting) (ev_returnValues event) then
            (case ls_handler setting event of
               Resolved v \<Rightarrow>
                 (let (called, p) = processAllEvent_loop watchItem events in (event # called, p))
             | Rejected err \<Rightarrow> ([event], Rejected err)
             | Pending \<Rightarrow> ([event], Pending))
          else processAllEvent_loop watchItem events)"

definition processAllEvent :: "int \<Rightarrow> int \<Rightarrow> watchItem \<Rightarrow> chain_event list \<times> promise" where
  "processAllEvent fromBlockNumber toBlockNumber watchItem =
     processAllEvent_loop watchItem (wi_getPastEvents watchItem fromBlockNumber toBlockNumber)"

text \<open>
  \<^verbatim>\<open>processEvent\<close>, the method for a single event name: the handler is called inside
  \<^verbatim>\<open>try { ... } catch (err) { }\<close> and its promise is not awaited, so the loop reaches every
  event. \<^verbatim>\<open>events\<close> is the result of \<^verbatim>\<open>contract.getPastEvents(eventName, ...)\<close>.
\<close>

fun processEvent_loop :: "listener_setting \<Rightarrow> chain_event list \<Rightarrow> chain_event list" where
  "processEvent_loop eventSetting [] = []"
| "processEvent_loop eventSetting (event # events) = event # processEvent_loop eventSetting events"

definition processEvent :: "chain_event list \<Rightarrow> listener_setting \<Rightarrow> chain_event list \<times> promise" where
  "processEvent events eventSetting = (processEvent_loop eventSetting events, Resolved JUndefined)"

text \<open>
  One pass of the loop \<^verbatim>\<open>for (let watchItem of this.watchList)\<close> of \<^verbatim>\<open>start\<close>:
  \<^verbatim>\<open>processAllEvent\<close> is called without \<^verbatim>\<open>await\<close>, so its promise is dropped, and the pass
  returns from \<^verbatim>\<open>start\<close> when the watcher is disabled. The result lists what each started
  \<^verbatim>\<open>processAllEvent\<close> does, and whether \<^verbatim>\<open>start\<close> returned.
\<close>

fun scan_watchList ::
    "HttpWatcher \<Rightarrow> int \<Rightarrow> int \<Rightarrow> watchItem list \<Rightarrow> (chain_event list \<times> promise) list \<times> bool" where
  "scan_watchList w lastBlockNumber currentBlockNumber [] = ([], False)"
| "scan_watchList w lastBlockNumber currentBlockNumber (watchItem # rest) =
     (let r = processAllEvent lastBlockNumber currentBlockNumber watchItem
      in if hw_enabled w = False then ([r], True)
         else (let (rs, returned) = scan_watchList w lastBlockNumber currentBlockNumber rest
               in (r # rs, returned)))"

text \<open>One scanned block range with what was started for it.\<close>

record tick =
  tk_fromBlock :: int
  tk_toBlock :: int
  tk_started :: "(chain_event list \<times> promise) list"

text \<open>What a later \<^verbatim>\<open>await this.base.getBlockNumber()\<close> gives.\<close>

datatype head_reading = Head int | HeadError string

text \<open>
  The steady-state loop \<^verbatim>\<open>while (true)\<close> of \<^verbatim>\<open>start\<close>, over the readings of the head that
  the loop receives one per iteration. The loop has no exit but the watcher being
  disabled: when the readings are used up the promise of \<^verbatim>\<open>start\<close> is still pending. A
  failed reading is caught and logged by the \<^verbatim>\<open>try\<close> of the loop.
\<close>

fun steady_state :: "HttpWatcher \<Rightarrow> int \<Rightarrow> head_reading list \<Rightarrow> tick list \<times> promise" where
  "steady_state w currentBlockNumber [] = ([], Pending)"
| "steady_state w currentBlockNumber (HeadError err # heads) =
     steady_state w currentBlockNumber heads"
| "steady_state w currentBlockNumber (Head h # heads) =
     (let lastBlockNumber = currentBlockNumber + 1
      in if lastBlockNumber > h then steady_state w h heads
         else
           let (started, returned) = scan_watchList w lastBlockNumber h (hw_watchList w);
               t = \<lparr>tk_fromBlock = lastBlockNumber, tk_toBlock = h, tk_started = started\<rparr>
           in if returned then ([t], Resolved JUndefined)
              else (let (ts, p) = steady_state w h heads in (t # ts, p)))"

text \<open>
  The catch-up loop \<^verbatim>\<open>while (lastBlockNumber <= currentBlockNumber)\<close>. A failed reading of
  the head is not caught here: \<^verbatim>\<open>start\<close> rejects.
\<close>

fun catch_up :: "HttpWatcher \<Rightarrow> int \<Rightarrow> int \<Rightarrow> head_reading list \<Rightarrow> tick list \<times> promise" where
  "catch_up w lastBlockNumber currentBlockNumber heads =
     (if lastBlockNumber \<le> currentBlockNumber then
        let (started, returned) =
              scan_watchList w lastBlockNumber currentBlockNumber (hw_watchList w);
            t = \<lparr>tk_fromBlock = lastBlockNumber, tk_toBlock = currentBlockNumber,
                 tk_started = started\<rparr>
        in if returned then ([t], Resolved JUndefined)
           else (case heads of
                   [] \<Rightarrow> ([t], Pending)
                 | HeadError err # heads' \<Rightarrow> ([t], Rejected err)
                 | Head h # heads' \<Rightarrow>
                     (let (ts, p) = catch_up w (currentBlockNumber + 1) h heads' in (t # ts, p)))
      else steady_state w currentBlockNumber heads)"

text \<open>
  \<^verbatim>\<open>lastBlockNumber = lastBlockNumber || currentBlockNumber - 10\<close>: the parameter defaults
  to 0, and 0 is falsy.
\<close>

definition start_lastBlockNumber :: "HttpWatcher \<Rightarrow> int \<Rightarrow> int \<Rightarrow> int" where
  "start_lastBlockNumber w lastBlockNumber currentBlockNumber =
     (if lastBlockNumber \<noteq> 0 then lastBlockNumber else currentBlockNumber - 10)"

text \<open>
  \<^verbatim>\<open>start(lastBlockNumber = 0)\<close>; \<^verbatim>\<open>currentBlockNumber\<close> is the first reading of the head.
\<close>

definition start :: "HttpWatcher \<Rightarrow> int \<Rightarrow> int \<Rightarrow> head_reading list \<Rightarrow> tick list \<times> promise" where
  "start w lastBlockNumber currentBlockNumber heads =
     catch_up w (start_lastBlockNumber w lastBlockNumber currentBlockNumber) currentBlockNumber heads"

section \<open>Calls in flight\<close>

text \<open>
  \<^verbatim>\<open>SendAsset\<close> and \<^verbatim>\<open>ProposeReBalance\<close> read the proof stored on the application chain,
  sign the next one and submit it; the chain executes the submitted call later, while the
  method awaits the receipt. Neither method takes a lock or queues behind an earlier call,
  so a caller can issue the next call before the chain has executed the previous one.

  A schedule makes this order explicit. \<open>Issue_SendAsset\<close> and \<open>Issue_ProposeReBalance\<close> run
  the method against the current state of the chain and queue what it submits;
  \<open>Execute\<close> lets the chain execute the oldest queued call. How a call changes the state
  is the contract's business, outside this code: it is the parameter \<open>chain\<close>. The
  result of a run is the list of submitted calls, each carrying its signed proof.
\<close>

datatype sched_step =
    Issue_SendAsset address int address
  | Issue_ProposeReBalance address int address
  | Execute

fun sent_calls :: "chain_op list \<Rightarrow> app_method list" where
  "sent_calls [] = []"
| "sent_calls (App_send m tx # ops) = m # sent_calls ops"
| "sent_calls (other # ops) = sent_calls ops"

fun run_schedule ::
    "(env \<Rightarrow> app_method \<Rightarrow> env) \<Rightarrow> env \<Rightarrow> app_method list \<Rightarrow> sched_step list \<Rightarrow> app_method list" where
  "run_schedule chain e pending [] = []"
| "run_schedule chain e pending (Issue_SendAsset to amount token # steps) =
     (let ms = sent_calls (snd (SendAsset e to amount token))
      in ms @ run_schedule chain e (pending @ ms) steps)"
| "run_schedule chain e pending (Issue_ProposeReBalance user amount token # steps) =
     (let ms = sent_calls (snd (ProposeReBalance e user amount token))
      in ms @ run_schedule chain e (pending @ ms) steps)"
| "run_schedule chain e [] (Execute # steps) = run_schedule chain e [] steps"
| "run_schedule chain e (m # pending) (Execute # steps) =
     run_schedule chain (chain e m) pending steps"

text \<open>The nonces of the two proof streams among the submitted calls.\<close>

fun transfer_nonces :: "app_method list \<Rightarrow> int list" where
  "transfer_nonces [] = []"
| "transfer_nonces (transfer_call to channelID balance nonce additionalHash signature # ms) =
     nonce # transfer_nonces ms"
| "transfer_nonces (other # ms) = transfer_nonces ms"

fun rebalance_nonces :: "app_method list \<Rightarrow> int list" where
  "rebalance_nonces [] = []"
| "rebalance_nonces (proposeRebalance_call channelID amount nonce signature # ms) =
     nonce # rebalance_nonces ms"
| "rebalance_nonces (other # ms) = rebalance_nonces ms"

text \<open>Strictly increasing and gap-free: the list is \<open>n, n + 1, n + 2, ...\<close>.\<close>

fun consecutive_from :: "int \<Rightarrow> int list \<Rightarrow> bool" where
  "consecutive_from n [] = True"
| "consecutive_from n (x # xs) = (x = n \<and> consecutive_from (n + 1) xs)"

text \<open>
  Requests on one channel, issued one at a time: each call is followed by the execution of
  what it submitted.
\<close>

datatype request = Asset int | ReBalance int

fun issue :: "address \<Rightarrow> address \<Rightarrow> request \<Rightarrow> sched_step" where
  "issue user token (Asset amount) = Issue_SendAsset user amount token"
| "issue user token (ReBalance amount) = Issue_ProposeReBalance user amount token"

definition one_at_a_time :: "address \<Rightarrow> address \<Rightarrow> request list \<Rightarrow> sched_step list" where
  "one_at_a_time user token requests = concat (map (\<lambda>r. [issue user token r, Execute]) requests)"

section \<open>Amounts as differences of cumulative balances\<close>

text \<open>
  The amounts of a list of cumulative balances: each balance minus the balance before it,
  the first one minus \<open>previous\<close>.
\<close>

fun amounts_from :: "int \<Rightarrow> int list \<Rightarrow> int list" where
  "amounts_from previous [] = []"
| "amounts_from previous (b # bs) = (b - previous) # amounts_from b bs"

section \<open>Inputs for the examples\<close>

definition example_env :: env where
  "example_env =
     \<lparr>ADDRESS_ZERO = ''0x0000000000000000000000000000000000000000'',
      CHANNEL_STATUS_OPEN = 1,
      COMMIT_BLOCK_CONDITION = 250,
      ethPN_address = ''0xe1'',
      cpProvider_address = ''0xc9'',
      getChannelID = (\<lambda>user token. ''0x1d''),
      channelMap = (\<lambda>channelID. \<lparr>ch_status = 1, ch_token = ''0x70''\<rparr>),
      paymentNetworkMap = (\<lambda>token. \<lparr>providerBalance = 30, providerOnchainBalance = 40\<rparr>),
      rebalanceProofMap = (\<lambda>channelID.
        \<lparr>rp_amount = 20, rp_nonce = 3, rp_inAmount = 20, rp_inNonce = 3,
         rp_regulatorSignature = ''0x5e'', rp_inProviderSignature = ''0x5f''\<rparr>),
      balanceProofMap = (\<lambda>channelID a.
        \<lparr>bp_balance = 100, bp_nonce = 7, bp_additionalHash = ''0xab'',
         bp_partnerSignature = ''0x5a''\<rparr>),
      feeProofMap = (\<lambda>token. \<lparr>fp_amount = 0, fp_nonce = 0\<rparr>),
      feeRateMap = (\<lambda>token. 50),
      eth_getBlockNumber = 1000,
      cita_getBlockNumber = 5000,
      sha3_packed = (\<lambda>vs. ''0xaa''),
      signHash = (\<lambda>m. ''0xbb''),
      ecsign = (\<lambda>h. ''0x51'' @ h),
      callback_Transfer_set = True,
      send_hash = (\<lambda>m tx. Some ''0x7a''),
      receipt_errorMessage = (\<lambda>h. None),
      sendSignedTransaction = (\<lambda>r. TransactionHash ''0x7b'')\<rparr>"

text \<open>The same environment with the channel in a status other than \<^verbatim>\<open>Open\<close>.\<close>

definition closing_env :: env where
  "closing_env =
     example_env\<lparr>channelMap := (\<lambda>channelID. \<lparr>ch_status = 2, ch_token = ''0x70''\<rparr>)\<rparr>"

text \<open>The same environment with a node that reports an error for every broadcast.\<close>

definition failing_broadcast_env :: env where
  "failing_broadcast_env =
     example_env\<lparr>sendSignedTransaction := (\<lambda>r. BroadcastError ''nonce too low'')\<rparr>"

text \<open>
  The same environment with the tracked balance of the provider at 1000, ahead of an event
  that is delivered late.
\<close>

definition lagging_env :: env where
  "lagging_env =
     example_env\<lparr>balanceProofMap := (\<lambda>channelID a.
        \<lparr>bp_balance = 1000, bp_nonce = 9, bp_additionalHash = ''0xab'',
         bp_partnerSignature = ''0x5a''\<rparr>)\<rparr>"

text \<open>
  An application chain that records the proof of every executed \<^verbatim>\<open>transfer\<close> and
  \<^verbatim>\<open>proposeRebalance\<close>.
\<close>

definition recording_chain :: "env \<Rightarrow> app_method \<Rightarrow> env" where
  "recording_chain e m =
     (case m of
        transfer_call to channelID balance nonce additionalHash signature \<Rightarrow>
          e\<lparr>balanceProofMap := (\<lambda>c a. if c = channelID \<and> a = to
               then \<lparr>bp_balance = balance, bp_nonce = nonce, bp_additionalHash = additionalHash,
                     bp_partnerSignature = signature\<rparr>
               else balanceProofMap e c a)\<rparr>
      | proposeRebalance_call channelID amount nonce signature \<Rightarrow>
          e\<lparr>rebalanceProofMap := (\<lambda>c. if c = channelID
               then (rebalanceProofMap e c)\<lparr>rp_amount := amount, rp_nonce := nonce\<rparr>
               else rebalanceProofMap e c)\<rparr>
      | providerProposeWithdraw_call token balance lastCommitBlock \<Rightarrow> e
      | submitFee_call channelID token amount nonce signature \<Rightarrow> e)"

text \<open>
  An inbound \<^verbatim>\<open>Transfer\<close> event that raises the cumulative balance of the example channel
  from 100 to 200.
\<close>

definition transfer_to_200 :: Transfer_returnValues where
  "transfer_to_200 =
     \<lparr>rv_from = ''0xa1'', rv_to = ''0xc9'', rv_channelID = ''0x1d'', rv_balance = 200,
      rv_transferAmount = 100,
      rv_additionalHash =
        ''0x0000000000000000000000000000000000000000000000000000000000000000''\<rparr>"

text \<open>Two watchers that differ in every parameter of the constructor.\<close>

definition eth_watcher :: HttpWatcher where
  "eth_watcher =
     \<lparr>hw_enabled = True, hw_provider = ''http://eth'', hw_blockInterval = 15000,
      hw_watchList = []\<rparr>"

definition cita_watcher :: HttpWatcher where
  "cita_watcher =
     \<lparr>hw_enabled = False, hw_provider = ''http://cita'', hw_blockInterval = 3000,
      hw_watchList = [\<lparr>wi_getPastEvents = (\<lambda>fromBlock toBlock. []),
                       wi_listener = (\<lambda>name. None)\<rparr>]\<rparr>"

text \<open>
  Events of two watch items, and a handler whose promise rejects for the first event only
  (as when its query of \<^verbatim>\<open>channelMap\<close> fails).
\<close>

definition event_1 :: chain_event where
  "event_1 = \<lparr>ev_event = ''Transfer'', ev_returnValues = [(''to'', ''0xC9'')],
              ev_transactionHash = ''0x01''\<rparr>"

definition event_2 :: chain_event where
  "event_2 = \<lparr>ev_event = ''Transfer'', ev_returnValues = [(''to'', ''0xc9'')],
              ev_transactionHash = ''0x02''\<rparr>"

definition event_3 :: chain_event where
  "event_3 = \<lparr>ev_event = ''UserProposeWithdraw'', ev_returnValues = [],
              ev_transactionHash = ''0x03''\<rparr>"

definition rejecting_once :: "chain_event \<Rightarrow> promise" where
  "rejecting_once event =
     (if ev_transactionHash event = ''0x01'' then Rejected ''channelMap call failed''
      else Resolved JUndefined)"

definition example_listener :: "string \<Rightarrow> listener_setting option" where
  "example_listener name =
     (if name = ''Transfer''
      then Some \<lparr>ls_filter = [(''to'', ''0xc9'')], ls_handler = rejecting_once\<rparr>
      else if name = ''UserProposeWithdraw''
      then Some \<lparr>ls_filter = [], ls_handler = rejecting_once\<rparr>
      else None)"

definition watchItem_1 :: watchItem where
  "watchItem_1 = \<lparr>wi_getPastEvents = (\<lambda>fromBlock toBlock. [event_1, event_2]),
                   wi_listener = example_listener\<rparr>"

definition watchItem_2 :: watchItem where
  "watchItem_2 = \<lparr>wi_getPastEvents = (\<lambda>fromBlock toBlock. [event_3]),
                   wi_listener = example_listener\<rparr>"

definition example_watcher :: HttpWatcher where
  "example_watcher =
     \<lparr>hw_enabled = True, hw_provider = ''http://cita'', hw_blockInterval = 3000,
      hw_watchList = [watchItem_1, watchItem_2]\<rparr>"

text \<open>
  Past \<^verbatim>\<open>Transfer\<close> events as the application chain returns them, in block order: two
  incoming ones whose nonces 2 and 1 are out of order, and an outgoing one.
\<close>

definition example_inTXs :: "past_event list" where
  "example_inTXs =
     [\<lparr>pe_transactionHash = ''0x02'',
       pe_numbers = [(''blockNumber'', 90), (''logIndex'', 0), (''transactionIndex'', 0)],
       pe_channelID = ''0x1d'', pe_balance = 30, pe_rest = [(''nonce'', ''2'')]\<rparr>,
      \<lparr>pe_transactionHash = ''0x01'',
       pe_numbers = [(''blockNumber'', 91), (''logIndex'', 0), (''transactionIndex'', 0)],
       pe_channelID = ''0x1d'', pe_balance = 10, pe_rest = [(''nonce'', ''1'')]\<rparr>]"

definition example_outTXs :: "past_event list" where
  "example_outTXs =
     [\<lparr>pe_transactionHash = ''0x03'',
       pe_numbers = [(''blockNumber'', 92), (''logIndex'', 0), (''transactionIndex'', 0)],
       pe_channelID = ''0x1e'', pe_balance = 5, pe_rest = [(''nonce'', ''1'')]\<rparr>]"

section \<open>Properties\<close>

subsection \<open>Auxiliary facts\<close>

text \<open>The checks of the hashing function in terms of the value.\<close>

lemma bitLength_le: "n < 2 ^ k \<Longrightarrow> bitLength n \<le> k"
proof (induction k arbitrary: n)
  case 0
  then show ?case by (simp add: bitLength.simps)
next
  case (Suc k)
  show ?case
  proof (cases "n = 0")
    case True
    then show ?thesis by (simp add: bitLength.simps)
  next
    case False
    from Suc.prems have "n div 2 < 2 ^ k" by simp
    from Suc.IH [OF this] False show ?thesis
      by (subst bitLength.simps) simp
  qed
qed

lemma bitLength_gt: "2 ^ k \<le> n \<Longrightarrow> k < bitLength n"
proof (induction k arbitrary: n)
  case 0
  then show ?case by (subst bitLength.simps) simp
next
  case (Suc k)
  then have "2 ^ k \<le> n div 2" by simp
  moreover have "n \<noteq> 0"
  proof
    assume "n = 0"
    with Suc.prems show False by simp
  qed
  ultimately show ?case
    using Suc.IH [of "n div 2"] by (subst bitLength.simps) simp
qed

lemma uint256_error_None: "0 \<le> v \<Longrightarrow> v < 2 ^ 256 \<Longrightarrow> uint256_error v = None"
proof -
  assume a: "0 \<le> v" "v < 2 ^ 256"
  then have "nat \<bar>v\<bar> < 2 ^ 256"
    by (simp add: nat_less_iff)
  from bitLength_le [OF this] a show ?thesis
    by (simp add: uint256_error_def)
qed

lemma uint256_error_Some: "v < 0 \<or> 2 ^ 256 \<le> v \<Longrightarrow> \<exists>err. uint256_error v = Some err"
proof -
  assume a: "v < 0 \<or> 2 ^ 256 \<le> v"
  show ?thesis
  proof (cases "v < 0")
    case True
    then show ?thesis by (simp add: uint256_error_def)
  next
    case False
    with a have "2 ^ 256 \<le> nat \<bar>v\<bar>"
      by (simp add: le_nat_iff)
    from bitLength_gt [OF this] show ?thesis
      by (simp add: uint256_error_def)
  qed
qed

lemma round_double_exact: "\<bar>n\<bar> < 2 ^ 53 \<Longrightarrow> round_double n = n"
proof -
  assume "\<bar>n\<bar> < 2 ^ 53"
  then have "nat \<bar>n\<bar> < 2 ^ 53" by (simp add: nat_less_iff)
  from bitLength_le [OF this] show ?thesis
    by (simp add: round_double_def)
qed

lemma uint256_error_examples:
  "uint256_error (- 1) = Some ''Supplied uint -1 is negative''"
  "uint256_error (- 4) = Some ''Supplied uint -4 is negative''"
  by code_simp+

text \<open>The two payloads that the code hashes: they are hashed when both numbers are valid.\<close>

lemma soliditySha3_rebalance:
  "soliditySha3 e [Sol_address a, Sol_bytes32 c, Sol_uint256 x, Sol_uint256 y] =
     (case uint256_error x of
        Some err \<Rightarrow> Inl err
      | None \<Rightarrow>
          (case uint256_error y of
             Some err \<Rightarrow> Inl err
           | None \<Rightarrow> Inr (sha3_packed e [Sol_address a, Sol_bytes32 c, Sol_uint256 x, Sol_uint256 y])))"
  by (simp add: soliditySha3_def split: option.splits)

lemma soliditySha3_fee:
  "soliditySha3 e [Sol_address a, Sol_address t, Sol_uint256 x, Sol_uint256_number y] =
     (case uint256_error x of
        Some err \<Rightarrow> Inl err
      | None \<Rightarrow>
          if 2 ^ 53 \<le> \<bar>y\<bar> then Inl ''Assertion failed''
          else
            (case uint256_error y of
               Some err \<Rightarrow> Inl err
             | None \<Rightarrow>
                 Inr (sha3_packed e
                   [Sol_address a, Sol_address t, Sol_uint256 x, Sol_uint256_number y])))"
  by (simp add: soliditySha3_def split: option.splits)

lemma submissions_send_and_listen:
  "filter is_submission (snd (send_and_listen e m tx)) = [App_send m tx]"
  by (simp add: send_and_listen_def split: option.splits)

lemma submissions_BuildAppChainTX: "filter is_submission (snd (BuildAppChainTX e)) = []"
  by (simp add: BuildAppChainTX_def GetLastCommitBlock_def)

lemma SendEthTransaction_eq:
  "SendEthTransaction e from to val data =
     (settle (sendSignedTransaction e
        \<lparr>rt_from = from, rt_to = to, rt_data = data, rt_value = val, rt_gasLimit = 300000\<rparr>),
      [Eth_sendSignedTransaction
        \<lparr>rt_from = from, rt_to = to, rt_data = data, rt_value = val, rt_gasLimit = 300000\<rparr>])"
  by (simp add: SendEthTransaction_def settle_def Let_def split: broadcast.splits)

text \<open>What \<^verbatim>\<open>SendAsset\<close> and \<^verbatim>\<open>ProposeReBalance\<close> do on a channel whose status is \<^verbatim>\<open>Open\<close>.\<close>

lemma SendAsset_Open:
  assumes "ch_status (channelMap e (getChannelID e to token)) = CHANNEL_STATUS_OPEN e"
  shows "snd (SendAsset e to amount token) =
     (let channelID = getChannelID e to token;
          bp = balanceProofMap e channelID to;
          newCumulative = bp_balance bp + amount;
          newNonce = bp_nonce bp + 1;
          additionalHash = ''0x0'';
          signature = SignatureToHex e (signHash e
              \<lparr>msg_channelID = channelID, msg_balance = newCumulative, msg_nonce = newNonce,
               msg_additionalHash = additionalHash\<rparr>);
          m = transfer_call to channelID newCumulative newNonce additionalHash signature
      in [Eth_getChannelID to token, App_channelMap channelID] @ snd (BuildAppChainTX e)
         @ [App_balanceProofMap channelID to]
         @ snd (send_and_listen e m (fst (BuildAppChainTX e))))"
  using assms by (simp add: SendAsset_def Let_def add.commute split: prod.splits)

lemma ProposeReBalance_Open:
  assumes "ch_status (channelMap e (getChannelID e user token)) = CHANNEL_STATUS_OPEN e"
  shows "ProposeReBalance e user amount token =
     (let channelID = getChannelID e user token;
          rp = rebalanceProofMap e channelID;
          reads = [Eth_getChannelID user token, App_channelMap channelID,
                   App_paymentNetworkMap token, App_rebalanceProofMap channelID]
      in if amount - rp_amount rp > providerBalance (paymentNetworkMap e token)
         then (Resolved JFalse, reads)
         else
           let newAmount = rp_amount rp + amount;
               newNonce = rp_nonce rp + 1
           in (case soliditySha3 e
                      [Sol_address (ethPN_address e), Sol_bytes32 channelID,
                       Sol_uint256 newAmount, Sol_uint256 newNonce] of
                 Inl err \<Rightarrow> (Rejected err, reads)
               | Inr messageHash \<Rightarrow>
                   let sent = send_and_listen e
                         (proposeRebalance_call channelID newAmount newNonce
                            (SignatureToHex e messageHash))
                         (fst (BuildAppChainTX e))
                   in (fst sent, reads @ snd (BuildAppChainTX e) @ snd sent)))"
  using assms by (simp add: ProposeReBalance_def Let_def split: prod.splits sum.splits)

text \<open>The calls that reach the application chain.\<close>

lemma sent_calls_append: "sent_calls (xs @ ys) = sent_calls xs @ sent_calls ys"
  by (induction xs rule: sent_calls.induct) simp_all

lemma sent_calls_send_and_listen: "sent_calls (snd (send_and_listen e m tx)) = [m]"
  by (simp add: send_and_listen_def split: option.splits)

lemma sent_calls_BuildAppChainTX: "sent_calls (snd (BuildAppChainTX e)) = []"
  by (simp add: BuildAppChainTX_def GetLastCommitBlock_def)

lemma sent_calls_SendAsset:
  assumes "ch_status (channelMap e (getChannelID e to token)) = CHANNEL_STATUS_OPEN e"
  shows "\<exists>b s. sent_calls (snd (SendAsset e to amount token)) =
     [transfer_call to (getChannelID e to token) b
        (bp_nonce (balanceProofMap e (getChannelID e to token) to) + 1) ''0x0'' s]"
  by (simp add: SendAsset_Open [OF assms] Let_def sent_calls_append sent_calls_send_and_listen
        sent_calls_BuildAppChainTX)

lemma sent_calls_ProposeReBalance:
  assumes "ch_status (channelMap e (getChannelID e user token)) = CHANNEL_STATUS_OPEN e"
  shows "sent_calls (snd (ProposeReBalance e user amount token)) = []
       \<or> (\<exists>a s. sent_calls (snd (ProposeReBalance e user amount token)) =
            [proposeRebalance_call (getChannelID e user token) a
               (rp_nonce (rebalanceProofMap e (getChannelID e user token)) + 1) s])"
  by (simp add: ProposeReBalance_Open [OF assms] Let_def sent_calls_append
        sent_calls_send_and_listen sent_calls_BuildAppChainTX split: sum.splits)

text \<open>
  A comparator that gives \<^verbatim>\<open>NaN\<close> for every pair leaves the array as it is; that is the
  case for \<^verbatim>\<open>cmpNonce('nonce')\<close> on events that have no number \<^verbatim>\<open>nonce\<close> of their own.
\<close>

lemma js_sort_NaN:
  assumes "\<And>x y. cmp x y = None"
  shows "js_sort cmp xs = xs"
proof (induction xs)
  case Nil
  then show ?case by simp
next
  case (Cons x xs)
  then show ?case by (cases xs) (simp_all add: assms)
qed

lemma js_sort_no_own_nonce:
  assumes "\<forall>tx \<in> set txs. map_of (pe_numbers tx) ''nonce'' = None"
  shows "js_sort (cmpNonce ''nonce'') txs = txs"
  using assms
proof (induction txs)
  case Nil
  then show ?case by simp
next
  case (Cons tx txs)
  then show ?case by (cases txs) (simp_all add: cmpNonce_def)
qed

lemma map_getTX_amounts:
  "map tx_amount (fst (map_getTX lastBalance txs)) = amounts_from lastBalance (map pe_balance txs)"
  by (induction txs arbitrary: lastBalance) (simp_all add: getTX_def Let_def case_prod_unfold)

lemma map_getTX_ids:
  "map tx_id (fst (map_getTX lastBalance txs)) = map pe_transactionHash txs"
  by (induction txs arbitrary: lastBalance) (simp_all add: getTX_def Let_def case_prod_unfold)

lemma map_getTX_last:
  "snd (map_getTX lastBalance txs) = last (lastBalance # map pe_balance txs)"
  by (induction txs arbitrary: lastBalance) (simp_all add: getTX_def Let_def case_prod_unfold)

lemma toLowerCase_examples:
  "toLowerCase ''0xC9'' = ''0xc9''"
  "toLowerCase ''0xc9'' = ''0xc9''"
  by code_simp+

subsection \<open>Operations that require an open channel\<close>

text \<open>
  C1, as the code has it. \<^verbatim>\<open>SendAsset\<close> on a channel whose status is not \<^verbatim>\<open>Open\<close> (here 2
  where \<^verbatim>\<open>Open\<close> is 1) does not return a failure value: the statement
  \<^verbatim>\<open>throw new Error("channel status is not open")\<close> rejects the promise of the method. Before
  that the method has queried \<^verbatim>\<open>getChannelID\<close> and \<^verbatim>\<open>channelMap\<close>.
\<close>

theorem SendAsset_Closing_throws:
  "SendAsset closing_env ''0xa1'' 5 ''0x70'' =
     (Rejected ''channel status is not open'',
      [Eth_getChannelID ''0xa1'' ''0x70'', App_channelMap ''0x1d''])"
  by (simp add: SendAsset_def closing_env_def example_env_def)

text \<open>
  C1, amended. When the status of the resolved channel is not \<^verbatim>\<open>Open\<close>, each of
  \<^verbatim>\<open>ProposeReBalance\<close>, \<^verbatim>\<open>SendAsset\<close> and \<^verbatim>\<open>CloseChannel\<close> throws the error
  "channel status is not open" after the two read-only queries that resolve the channel,
  and submits no transaction.
\<close>

theorem not_Open_throws:
  assumes "ch_status (channelMap e (getChannelID e user token)) \<noteq> CHANNEL_STATUS_OPEN e"
  shows "ProposeReBalance e user amount token =
           (Rejected ''channel status is not open'',
            [Eth_getChannelID user token, App_channelMap (getChannelID e user token)])
       \<and> SendAsset e user amount token =
           (Rejected ''channel status is not open'',
            [Eth_getChannelID user token, App_channelMap (getChannelID e user token)])
       \<and> CloseChannel e user token =
           (Rejected ''channel status is not open'',
            [Eth_getChannelID user token, App_channelMap (getChannelID e user token)])
       \<and> filter is_submission (snd (ProposeReBalance e user amount token)) = []
       \<and> filter is_submission (snd (SendAsset e user amount token)) = []
       \<and> filter is_submission (snd (CloseChannel e user token)) = []"
  using assms by (simp add: ProposeReBalance_def SendAsset_def CloseChannel_def Let_def)

theorem not_Open_throws_witness:
  "ch_status (channelMap closing_env (getChannelID closing_env ''0xa1'' ''0x70''))
     \<noteq> CHANNEL_STATUS_OPEN closing_env
   \<and> ProposeReBalance closing_env ''0xa1'' 5 ''0x70'' =
           (Rejected ''channel status is not open'',
            [Eth_getChannelID ''0xa1'' ''0x70'', App_channelMap ''0x1d''])
   \<and> SendAsset closing_env ''0xa1'' 5 ''0x70'' =
           (Rejected ''channel status is not open'',
            [Eth_getChannelID ''0xa1'' ''0x70'', App_channelMap ''0x1d''])
   \<and> CloseChannel closing_env ''0xa1'' ''0x70'' =
           (Rejected ''channel status is not open'',
            [Eth_getChannelID ''0xa1'' ''0x70'', App_channelMap ''0x1d''])"
proof -
  have h: "ch_status (channelMap closing_env (getChannelID closing_env ''0xa1'' ''0x70''))
      \<noteq> CHANNEL_STATUS_OPEN closing_env"
    by (simp add: closing_env_def example_env_def)
  have g: "getChannelID closing_env ''0xa1'' ''0x70'' = ''0x1d''"
    by (simp add: closing_env_def example_env_def)
  from not_Open_throws [OF h, of 5] h g show ?thesis by simp
qed

subsection \<open>\<^verbatim>\<open>ProposeWithdraw\<close>\<close>

text \<open>
  C2. \<^verbatim>\<open>ProposeWithdraw\<close> returns \<^verbatim>\<open>false\<close> whenever the amount exceeds the on-chain total
  provider balance of the token, or whenever on-chain total minus amount exceeds the
  tracked provider balance. The only chain interaction is then the query of
  \<^verbatim>\<open>paymentNetworkMap\<close>: no transaction is submitted.
\<close>

theorem ProposeWithdraw_rejects:
  assumes "amount > providerOnchainBalance (paymentNetworkMap e token)
         \<or> providerOnchainBalance (paymentNetworkMap e token) - amount
             > providerBalance (paymentNetworkMap e token)"
  shows "ProposeWithdraw e amount token = (Resolved JFalse, [App_paymentNetworkMap token])
       \<and> filter is_submission (snd (ProposeWithdraw e amount token)) = []"
  using assms by (auto simp: ProposeWithdraw_def Let_def)

text \<open>
  The scenario of the specification: \<^verbatim>\<open>ProposeWithdraw(amount = 50)\<close> with an on-chain total
  of 40.
\<close>

theorem ProposeWithdraw_rejects_witness:
  "(50::int) > providerOnchainBalance (paymentNetworkMap example_env ''0x70'')
   \<and> ProposeWithdraw example_env 50 ''0x70'' = (Resolved JFalse, [App_paymentNetworkMap ''0x70''])
   \<and> filter is_submission (snd (ProposeWithdraw example_env 50 ''0x70'')) = []"
proof -
  have h: "(50::int) > providerOnchainBalance (paymentNetworkMap example_env ''0x70'')"
    by (simp add: example_env_def)
  from ProposeWithdraw_rejects [of example_env "''0x70''" 50] h show ?thesis
    by simp
qed

subsection \<open>\<^verbatim>\<open>SendAsset\<close>\<close>

text \<open>
  C3. On a channel whose status is \<^verbatim>\<open>Open\<close>, \<^verbatim>\<open>SendAsset(to, amount, token)\<close> submits exactly
  one transaction, the call \<^verbatim>\<open>transfer\<close>, whatever the receipt says afterwards (so also for
  every successful call). It carries the stored cumulative balance of the balance proof
  plus \<^verbatim>\<open>amount\<close>, the stored nonce plus 1 and the additional hash \<^verbatim>\<open>'0x0'\<close>, the zero value
  the code uses for a plain transfer; the signature is the provider's signature of
  \<^verbatim>\<open>signHash\<close> of the four fields channel id, new cumulative balance, new nonce and
  additional hash.
\<close>

theorem SendAsset_transfer:
  assumes "ch_status (channelMap e (getChannelID e to token)) = CHANNEL_STATUS_OPEN e"
  shows "filter is_submission (snd (SendAsset e to amount token)) =
     (let channelID = getChannelID e to token;
          bp = balanceProofMap e channelID to;
          newCumulative = bp_balance bp + amount;
          newNonce = bp_nonce bp + 1;
          additionalHash = ''0x0'';
          signature = SignatureToHex e (signHash e
              \<lparr>msg_channelID = channelID, msg_balance = newCumulative, msg_nonce = newNonce,
               msg_additionalHash = additionalHash\<rparr>)
      in [App_send (transfer_call to channelID newCumulative newNonce additionalHash signature)
            (fst (BuildAppChainTX e))])"
  by (simp add: SendAsset_Open [OF assms] Let_def submissions_send_and_listen
        submissions_BuildAppChainTX)

text \<open>
  A successful call in the example environment: stored balance 100 and nonce 7, amount 5.
\<close>

theorem SendAsset_transfer_witness:
  "ch_status (channelMap example_env (getChannelID example_env ''0xa1'' ''0x70''))
     = CHANNEL_STATUS_OPEN example_env
   \<and> filter is_submission (snd (SendAsset example_env ''0xa1'' 5 ''0x70'')) =
       [App_send (transfer_call ''0xa1'' ''0x1d'' 105 8 ''0x0'' ''0x510xbb'')
          \<lparr>tx_from = ''0xc9'', validUntilBlock = 5088\<rparr>]
   \<and> fst (SendAsset example_env ''0xa1'' 5 ''0x70'') = Resolved (JString ''confirm success'')"
proof -
  have h: "ch_status (channelMap example_env (getChannelID example_env ''0xa1'' ''0x70''))
      = CHANNEL_STATUS_OPEN example_env"
    by (simp add: example_env_def)
  have r: "fst (SendAsset example_env ''0xa1'' 5 ''0x70'') = Resolved (JString ''confirm success'')"
    by (simp add: SendAsset_def send_and_listen_def BuildAppChainTX_def GetLastCommitBlock_def
          SignatureToHex_def example_env_def Let_def)
  from SendAsset_transfer [OF h, of 5] h r show ?thesis
    by (simp add: Let_def BuildAppChainTX_def GetLastCommitBlock_def SignatureToHex_def
          example_env_def)
qed

subsection \<open>\<^verbatim>\<open>ProposeReBalance\<close>\<close>

text \<open>
  C4, as the code has it. In the example environment the rebalance amount is 20 and the
  provider balance is 30. For the amount -21 the guard does not refuse (-41 does not exceed
  30), the new amount is -1, and hashing it as \<^verbatim>\<open>uint256\<close> throws: the call rejects after
  its four read-only queries and submits nothing.
\<close>

theorem ProposeReBalance_negative_throws:
  "ProposeReBalance example_env ''0xa1'' (- 21) ''0x70'' =
     (Rejected ''Supplied uint -1 is negative'',
      [Eth_getChannelID ''0xa1'' ''0x70'', App_channelMap ''0x1d'',
       App_paymentNetworkMap ''0x70'', App_rebalanceProofMap ''0x1d''])"
  by (simp add: ProposeReBalance_def soliditySha3_rebalance uint256_error_examples Let_def
        example_env_def)

text \<open>
  C4, amended. On a channel whose status is \<^verbatim>\<open>Open\<close>: if \<^verbatim>\<open>amount\<close> minus the current
  rebalance amount exceeds the available provider balance, \<^verbatim>\<open>ProposeReBalance\<close> returns
  \<^verbatim>\<open>false\<close> and submits nothing. Otherwise, when the new amount (current rebalance amount
  plus \<^verbatim>\<open>amount\<close>) and the new nonce (current rebalance nonce plus 1) are values of
  \<^verbatim>\<open>uint256\<close>, it submits exactly the call \<^verbatim>\<open>proposeRebalance\<close> with them and with the
  provider's signature of the hash of contract address, channel id, new amount and new
  nonce; when one of them is not (the new amount is negative for an amount below minus the
  current one), hashing throws and the call rejects without submitting.
\<close>

theorem ProposeReBalance_rebalance:
  assumes "ch_status (channelMap e (getChannelID e user token)) = CHANNEL_STATUS_OPEN e"
  shows "(let channelID = getChannelID e user token;
              rp = rebalanceProofMap e channelID;
              newAmount = rp_amount rp + amount;
              newNonce = rp_nonce rp + 1;
              payload = [Sol_address (ethPN_address e), Sol_bytes32 channelID,
                         Sol_uint256 newAmount, Sol_uint256 newNonce];
              signature = SignatureToHex e (sha3_packed e payload)
          in if amount - rp_amount rp > providerBalance (paymentNetworkMap e token)
             then fst (ProposeReBalance e user amount token) = Resolved JFalse
                \<and> filter is_submission (snd (ProposeReBalance e user amount token)) = []
             else if 0 \<le> newAmount \<and> newAmount < 2 ^ 256 \<and> 0 \<le> newNonce \<and> newNonce < 2 ^ 256
             then filter is_submission (snd (ProposeReBalance e user amount token)) =
                    [App_send (proposeRebalance_call channelID newAmount newNonce signature)
                       (fst (BuildAppChainTX e))]
             else (\<exists>err. fst (ProposeReBalance e user amount token) = Rejected err)
                \<and> filter is_submission (snd (ProposeReBalance e user amount token)) = [])"
proof -
  let ?c = "getChannelID e user token"
  let ?x = "rp_amount (rebalanceProofMap e ?c) + amount"
  let ?y = "rp_nonce (rebalanceProofMap e ?c) + 1"
  let ?refused = "amount - rp_amount (rebalanceProofMap e ?c)
      > providerBalance (paymentNetworkMap e token)"
  consider (refused) "?refused"
    | (valid) "\<not> ?refused" "0 \<le> ?x \<and> ?x < 2 ^ 256 \<and> 0 \<le> ?y \<and> ?y < 2 ^ 256"
    | (bad_amount) "\<not> ?refused" "?x < 0 \<or> 2 ^ 256 \<le> ?x"
    | (bad_nonce) "\<not> ?refused" "0 \<le> ?x \<and> ?x < 2 ^ 256" "?y < 0 \<or> 2 ^ 256 \<le> ?y"
    by linarith
  then show ?thesis
  proof cases
    case refused
    then show ?thesis
      by (simp add: ProposeReBalance_Open [OF assms] Let_def)
  next
    case valid
    then have "uint256_error ?x = None" "uint256_error ?y = None"
      by (simp_all add: uint256_error_None)
    with valid show ?thesis
      by (simp add: ProposeReBalance_Open [OF assms] Let_def soliditySha3_rebalance
            submissions_send_and_listen submissions_BuildAppChainTX)
  next
    case bad_amount
    from uint256_error_Some [OF bad_amount(2)] obtain err where "uint256_error ?x = Some err"
      by blast
    with bad_amount show ?thesis
      by (auto simp add: ProposeReBalance_Open [OF assms] Let_def soliditySha3_rebalance)
  next
    case bad_nonce
    then have "uint256_error ?x = None"
      by (simp add: uint256_error_None)
    moreover from uint256_error_Some [OF bad_nonce(3)]
    obtain err where "uint256_error ?y = Some err"
      by blast
    ultimately show ?thesis
      using bad_nonce
      by (auto simp add: ProposeReBalance_Open [OF assms] Let_def soliditySha3_rebalance)
  qed
qed

text \<open>
  In the example environment the rebalance amount is 20 with nonce 3 and the provider
  balance is 30: an amount of 51 is refused, an amount of 50 is submitted, and an amount
  of -21 makes the call reject.
\<close>

theorem ProposeReBalance_rebalance_witness:
  "ch_status (channelMap example_env (getChannelID example_env ''0xa1'' ''0x70''))
     = CHANNEL_STATUS_OPEN example_env
   \<and> fst (ProposeReBalance example_env ''0xa1'' 51 ''0x70'') = Resolved JFalse
   \<and> filter is_submission (snd (ProposeReBalance example_env ''0xa1'' 51 ''0x70'')) = []
   \<and> filter is_submission (snd (ProposeReBalance example_env ''0xa1'' 50 ''0x70'')) =
       [App_send (proposeRebalance_call ''0x1d'' 70 4 ''0x510xaa'')
          \<lparr>tx_from = ''0xc9'', validUntilBlock = 5088\<rparr>]
   \<and> (\<exists>err. fst (ProposeReBalance example_env ''0xa1'' (- 21) ''0x70'') = Rejected err)
   \<and> filter is_submission (snd (ProposeReBalance example_env ''0xa1'' (- 21) ''0x70'')) = []"
proof -
  have h: "ch_status (channelMap example_env (getChannelID example_env ''0xa1'' ''0x70''))
      = CHANNEL_STATUS_OPEN example_env"
    by (simp add: example_env_def)
  from ProposeReBalance_rebalance [OF h, of 51] ProposeReBalance_rebalance [OF h, of 50]
    ProposeReBalance_rebalance [OF h, of "- 21"] h
  show ?thesis
    by (simp add: Let_def BuildAppChainTX_def GetLastCommitBlock_def SignatureToHex_def
          example_env_def)
qed

subsection \<open>Fee accrual on an inbound \<^verbatim>\<open>Transfer\<close> event\<close>

text \<open>
  C5, as the code has it. The quotient is computed by \<^verbatim>\<open>div\<close> of the big-number library,
  which truncates toward zero, not by a floor. An event whose cumulative balance (50) is
  below the tracked balance (100), with rate 50 and prior fee 0, gives the product -2500:
  the fee claim is submitted with the amount 0, where the floor formula gives -1.
\<close>

theorem Transfer_handler_truncates:
  "filter is_submission (snd (Transfer_handler example_env (transfer_to_200\<lparr>rv_balance := 50\<rparr>))) =
     [SendAppChainTX (submitFee_call ''0x1d'' ''0x70'' 0 1 ''0x510xaa'')]
   \<and> fp_amount (feeProofMap example_env ''0x70'')
       + (feeRateMap example_env ''0x70''
            * (50 - bp_balance (balanceProofMap example_env ''0x1d'' ''0xc9''))) div 10000 = - 1"
  by (simp add: Transfer_handler_def Let_def bn_div_def SignatureToHex_def soliditySha3_fee
        uint256_error_None round_double_exact transfer_to_200_def example_env_def)

text \<open>
  C5, amended. For an inbound \<^verbatim>\<open>Transfer\<close> event on a token whose prior fee nonce is a
  number below \<open>2\<^sup>5\<^sup>3 - 1\<close>: if the fee rate of the token is 0 nothing is submitted. Otherwise
  the fee amount is the prior fee amount plus the quotient of
  fee rate * (event cumulative balance - tracked balance) by 10000, truncated toward zero
  (the floor when the product is not negative), and the fee nonce is the prior fee nonce
  plus 1. When the fee amount is a value of \<^verbatim>\<open>uint256\<close>, exactly one fee claim with this
  amount and nonce is handed to the submitter, signed over contract address, token, fee
  amount and fee nonce; when it is negative, hashing throws: the handler rejects and no
  claim is made.
\<close>

theorem Transfer_handler_fee:
  assumes "0 \<le> fp_nonce (feeProofMap e (ch_token (channelMap e (rv_channelID ev))))"
    and "fp_nonce (feeProofMap e (ch_token (channelMap e (rv_channelID ev)))) + 1 < 2 ^ 53"
  shows "(let channelID = rv_channelID ev;
              token = ch_token (channelMap e channelID);
              feeRate = feeRateMap e token;
              trackedBalance = bp_balance (balanceProofMap e channelID (cpProvider_address e));
              product = feeRate * (rv_balance ev - trackedBalance);
              quotient = (if 0 \<le> product then product div 10000 else - ((- product) div 10000));
              feeAmount = fp_amount (feeProofMap e token) + quotient;
              feeNonce = fp_nonce (feeProofMap e token) + 1;
              payload = [Sol_address (ethPN_address e), Sol_address token,
                         Sol_uint256 feeAmount, Sol_uint256_number feeNonce];
              signature = SignatureToHex e (sha3_packed e payload)
          in if feeRate = 0 then filter is_submission (snd (Transfer_handler e ev)) = []
             else if 0 \<le> feeAmount \<and> feeAmount < 2 ^ 256
             then filter is_submission (snd (Transfer_handler e ev)) =
                    [SendAppChainTX (submitFee_call channelID token feeAmount feeNonce signature)]
             else (\<exists>err. fst (Transfer_handler e ev) = Rejected err)
                \<and> filter is_submission (snd (Transfer_handler e ev)) = [])"
proof -
  let ?t = "ch_token (channelMap e (rv_channelID ev))"
  let ?road = "fp_nonce (feeProofMap e ?t)"
  let ?p = "feeRateMap e ?t
      * (rv_balance ev - bp_balance (balanceProofMap e (rv_channelID ev) (cpProvider_address e)))"
  let ?f = "fp_amount (feeProofMap e ?t) + bn_div ?p 10000"
  have q: "(if 0 \<le> ?p then ?p div 10000 else - ((- ?p) div 10000)) = bn_div ?p 10000"
    by (simp add: bn_div_def)
  have "\<bar>?road\<bar> < 2 ^ 53" "\<bar>?road + 1\<bar> < 2 ^ 53"
    using assms by simp_all
  then have n: "round_double (round_double ?road + 1) = ?road + 1"
    by (simp add: round_double_exact)
  have small: "\<not> 2 ^ 53 \<le> \<bar>?road + 1\<bar>" "0 \<le> ?road + 1" "?road + 1 < 2 ^ 256"
    using assms by simp_all
  have nonce_ok: "uint256_error (?road + 1) = None"
    using small by (simp add: uint256_error_None)
  consider (zero) "feeRateMap e ?t = 0"
    | (valid) "feeRateMap e ?t \<noteq> 0" "0 \<le> ?f \<and> ?f < 2 ^ 256"
    | (bad) "feeRateMap e ?t \<noteq> 0" "?f < 0 \<or> 2 ^ 256 \<le> ?f"
    by linarith
  then show ?thesis
  proof cases
    case zero
    then show ?thesis
      by (simp add: Transfer_handler_def Let_def)
  next
    case valid
    then have "uint256_error ?f = None"
      by (simp add: uint256_error_None)
    with valid nonce_ok small show ?thesis
      unfolding Let_def q
      by (simp add: Transfer_handler_def Let_def n soliditySha3_fee)
  next
    case bad
    from uint256_error_Some [OF bad(2)] obtain err where "uint256_error ?f = Some err"
      by blast
    with bad show ?thesis
      unfolding Let_def q
      by (auto simp add: Transfer_handler_def Let_def n soliditySha3_fee)
  qed
qed

text \<open>
  The scenarios of the specification: tracked balance 100, rate 50, prior fee amount and
  nonce 0. A balance delta of 100 gives the fee amount 0, a delta of 1000 gives 5, both with
  fee nonce 1; with rate 0 nothing is submitted. With the tracked balance 1000 and the
  event balance 100 the fee amount would be -4: the handler rejects.
\<close>

theorem Transfer_handler_fee_witness:
  "0 \<le> fp_nonce (feeProofMap example_env
          (ch_token (channelMap example_env (rv_channelID transfer_to_200))))
   \<and> fp_nonce (feeProofMap example_env
          (ch_token (channelMap example_env (rv_channelID transfer_to_200)))) + 1 < 2 ^ 53
   \<and> filter is_submission (snd (Transfer_handler example_env transfer_to_200)) =
       [SendAppChainTX (submitFee_call ''0x1d'' ''0x70'' 0 1 ''0x510xaa'')]
   \<and> filter is_submission
        (snd (Transfer_handler example_env (transfer_to_200\<lparr>rv_balance := 1100\<rparr>))) =
       [SendAppChainTX (submitFee_call ''0x1d'' ''0x70'' 5 1 ''0x510xaa'')]
   \<and> filter is_submission
        (snd (Transfer_handler (example_env\<lparr>feeRateMap := (\<lambda>token. 0)\<rparr>) transfer_to_200)) = []
   \<and> (\<exists>err. fst (Transfer_handler lagging_env (transfer_to_200\<lparr>rv_balance := 100\<rparr>))
          = Rejected err)
   \<and> filter is_submission
        (snd (Transfer_handler lagging_env (transfer_to_200\<lparr>rv_balance := 100\<rparr>))) = []"
proof -
  let ?e0 = "example_env\<lparr>feeRateMap := (\<lambda>token. 0)\<rparr>"
  let ?ev = "transfer_to_200\<lparr>rv_balance := 1100\<rparr>"
  let ?ev' = "transfer_to_200\<lparr>rv_balance := 100\<rparr>"
  have h1: "0 \<le> fp_nonce (feeProofMap example_env
      (ch_token (channelMap example_env (rv_channelID transfer_to_200))))"
    by (simp add: example_env_def)
  have h2: "fp_nonce (feeProofMap example_env
      (ch_token (channelMap example_env (rv_channelID transfer_to_200)))) + 1 < 2 ^ 53"
    by (simp add: example_env_def)
  have h3: "0 \<le> fp_nonce (feeProofMap example_env
      (ch_token (channelMap example_env (rv_channelID ?ev))))"
    by (simp add: example_env_def)
  have h4: "fp_nonce (feeProofMap example_env
      (ch_token (channelMap example_env (rv_channelID ?ev)))) + 1 < 2 ^ 53"
    by (simp add: example_env_def)
  have h5: "0 \<le> fp_nonce (feeProofMap ?e0 (ch_token (channelMap ?e0 (rv_channelID transfer_to_200))))"
    by (simp add: example_env_def)
  have h6: "fp_nonce (feeProofMap ?e0 (ch_token (channelMap ?e0 (rv_channelID transfer_to_200)))) + 1
      < 2 ^ 53"
    by (simp add: example_env_def)
  have h7: "0 \<le> fp_nonce (feeProofMap lagging_env
      (ch_token (channelMap lagging_env (rv_channelID ?ev'))))"
    by (simp add: lagging_env_def example_env_def)
  have h8: "fp_nonce (feeProofMap lagging_env
      (ch_token (channelMap lagging_env (rv_channelID ?ev')))) + 1 < 2 ^ 53"
    by (simp add: lagging_env_def example_env_def)
  from Transfer_handler_fee [OF h1 h2] Transfer_handler_fee [OF h3 h4]
    Transfer_handler_fee [OF h5 h6] Transfer_handler_fee [OF h7 h8] h1 h2
  show ?thesis
    by (simp add: Let_def SignatureToHex_def transfer_to_200_def lagging_env_def example_env_def)
qed

text \<open>The late event in full: the error thrown by the hashing, after the queries.\<close>

lemma Transfer_handler_negative_fee_example:
  "Transfer_handler lagging_env (transfer_to_200\<lparr>rv_balance := 100\<rparr>) =
     (Rejected ''Supplied uint -4 is negative'',
      [App_channelMap ''0x1d'',
       Callback_Transfer
         \<lparr>te_from = ''0xa1'', te_to = ''0xc9'', te_token = ''0x70'', te_amount = 100,
          te_additionalHash =
            ''0x0000000000000000000000000000000000000000000000000000000000000000'',
          te_totalTransferredAmount = 100\<rparr>,
       App_feeProofMap ''0x70'', App_feeRateMap ''0x70'', App_balanceProofMap ''0x1d'' ''0xc9''])"
  by (simp add: Transfer_handler_def Let_def bn_div_def soliditySha3_fee uint256_error_examples
        transfer_to_200_def lagging_env_def example_env_def)

subsection \<open>Nonces of calls in flight\<close>

text \<open>
  C6, as the code has it. Nothing serializes the calls on a channel: two \<^verbatim>\<open>SendAsset\<close> calls
  issued before the chain has executed the first one both read the stored nonce 7, and both
  sign and submit a proof with nonce 8.
\<close>

theorem concurrent_SendAsset_same_nonce:
  "transfer_nonces (run_schedule recording_chain example_env []
      [Issue_SendAsset ''0xa1'' 5 ''0x70'', Issue_SendAsset ''0xa1'' 7 ''0x70'',
       Execute, Execute]) = [8, 8]"
  by (simp add: SendAsset_def send_and_listen_def BuildAppChainTX_def GetLastCommitBlock_def
        SignatureToHex_def recording_chain_def example_env_def Let_def)

text \<open>
  C6, amended. The operations take no lock; a call signs the nonce stored on the application
  chain when it reads it, plus 1. When the calls on an open channel are issued one at a
  time, each after the chain has executed what the previous call submitted, and the chain
  records the nonce of an executed \<^verbatim>\<open>transfer\<close> in the balance proof and that of an executed
  \<^verbatim>\<open>proposeRebalance\<close> in the rebalance proof (leaving the other proof, the channel and its
  id as they are), the nonces of each proof stream are strictly increasing and gap-free:
  they count up from the stored nonce plus 1.
\<close>

theorem one_at_a_time_nonces:
  assumes ids: "\<And>e m. getChannelID (chain e m) = getChannelID e"
    and chans: "\<And>e m. channelMap (chain e m) = channelMap e"
    and opn: "\<And>e m. CHANNEL_STATUS_OPEN (chain e m) = CHANNEL_STATUS_OPEN e"
    and t_bp: "\<And>e to c b n h s.
        bp_nonce (balanceProofMap (chain e (transfer_call to c b n h s)) c to) = n"
    and t_rp: "\<And>e to c b n h s.
        rebalanceProofMap (chain e (transfer_call to c b n h s)) = rebalanceProofMap e"
    and r_rp: "\<And>e c a n s.
        rp_nonce (rebalanceProofMap (chain e (proposeRebalance_call c a n s)) c) = n"
    and r_bp: "\<And>e c a n s.
        balanceProofMap (chain e (proposeRebalance_call c a n s)) = balanceProofMap e"
    and "ch_status (channelMap e (getChannelID e user token)) = CHANNEL_STATUS_OPEN e"
  shows "consecutive_from (bp_nonce (balanceProofMap e (getChannelID e user token) user) + 1)
           (transfer_nonces (run_schedule chain e [] (one_at_a_time user token requests)))
       \<and> consecutive_from (rp_nonce (rebalanceProofMap e (getChannelID e user token)) + 1)
           (rebalance_nonces (run_schedule chain e [] (one_at_a_time user token requests)))"
  using assms(8)
proof (induction requests arbitrary: e)
  case Nil
  then show ?case by (simp add: one_at_a_time_def)
next
  case (Cons r rs)
  let ?c = "getChannelID e user token"
  show ?case
  proof (cases r)
    case (Asset amount)
    from sent_calls_SendAsset [OF Cons.prems, of amount]
    obtain b s where sent: "sent_calls (snd (SendAsset e user amount token)) =
        [transfer_call user ?c b (bp_nonce (balanceProofMap e ?c user) + 1) ''0x0'' s]"
      by blast
    let ?m = "transfer_call user ?c b (bp_nonce (balanceProofMap e ?c user) + 1) ''0x0'' s"
    have open': "ch_status (channelMap (chain e ?m) (getChannelID (chain e ?m) user token))
                 = CHANNEL_STATUS_OPEN (chain e ?m)"
      using Cons.prems by (simp add: ids chans opn)
    from Cons.IH [OF open'] show ?thesis
      using Asset sent by (simp add: one_at_a_time_def ids t_bp t_rp)
  next
    case (ReBalance amount)
    from sent_calls_ProposeReBalance [OF Cons.prems, of amount]
    consider (none) "sent_calls (snd (ProposeReBalance e user amount token)) = []"
      | (some) a s where "sent_calls (snd (ProposeReBalance e user amount token)) =
            [proposeRebalance_call ?c a (rp_nonce (rebalanceProofMap e ?c) + 1) s]"
      by blast
    then show ?thesis
    proof cases
      case none
      from Cons.IH [OF Cons.prems] show ?thesis
        using ReBalance none by (simp add: one_at_a_time_def)
    next
      case some
      let ?m = "proposeRebalance_call ?c a (rp_nonce (rebalanceProofMap e ?c) + 1) s"
      have open': "ch_status (channelMap (chain e ?m) (getChannelID (chain e ?m) user token))
                   = CHANNEL_STATUS_OPEN (chain e ?m)"
        using Cons.prems by (simp add: ids chans opn)
      from Cons.IH [OF open'] show ?thesis
        using ReBalance some by (simp add: one_at_a_time_def ids r_bp r_rp)
    qed
  qed
qed

text \<open>
  Three requests issued one at a time against the recording chain, from the stored nonces 7
  (balance proof) and 3 (rebalance proof).
\<close>

theorem one_at_a_time_nonces_witness:
  "consecutive_from 8 (transfer_nonces (run_schedule recording_chain example_env []
      (one_at_a_time ''0xa1'' ''0x70'' [Asset 5, ReBalance 10, Asset 7])))
   \<and> consecutive_from 4 (rebalance_nonces (run_schedule recording_chain example_env []
      (one_at_a_time ''0xa1'' ''0x70'' [Asset 5, ReBalance 10, Asset 7])))
   \<and> transfer_nonces (run_schedule recording_chain example_env []
      (one_at_a_time ''0xa1'' ''0x70'' [Asset 5, ReBalance 10, Asset 7])) = [8, 9]
   \<and> rebalance_nonces (run_schedule recording_chain example_env []
      (one_at_a_time ''0xa1'' ''0x70'' [Asset 5, ReBalance 10, Asset 7])) = [4]"
proof -
  have ids: "\<And>e m. getChannelID (recording_chain e m) = getChannelID e"
    by (simp add: recording_chain_def split: app_method.splits)
  have chans: "\<And>e m. channelMap (recording_chain e m) = channelMap e"
    by (simp add: recording_chain_def split: app_method.splits)
  have opn: "\<And>e m. CHANNEL_STATUS_OPEN (recording_chain e m) = CHANNEL_STATUS_OPEN e"
    by (simp add: recording_chain_def split: app_method.splits)
  have t_bp: "\<And>e to c b n h s.
      bp_nonce (balanceProofMap (recording_chain e (transfer_call to c b n h s)) c to) = n"
    by (simp add: recording_chain_def)
  have t_rp: "\<And>e to c b n h s.
      rebalanceProofMap (recording_chain e (transfer_call to c b n h s)) = rebalanceProofMap e"
    by (simp add: recording_chain_def)
  have r_rp: "\<And>e c a n s.
      rp_nonce (rebalanceProofMap (recording_chain e (proposeRebalance_call c a n s)) c) = n"
    by (simp add: recording_chain_def)
  have r_bp: "\<And>e c a n s.
      balanceProofMap (recording_chain e (proposeRebalance_call c a n s)) = balanceProofMap e"
    by (simp add: recording_chain_def)
  have opened: "ch_status (channelMap example_env (getChannelID example_env ''0xa1'' ''0x70''))
      = CHANNEL_STATUS_OPEN example_env"
    by (simp add: example_env_def)
  have stored:
    "bp_nonce (balanceProofMap example_env (getChannelID example_env ''0xa1'' ''0x70'') ''0xa1'') + 1 = 8"
    "rp_nonce (rebalanceProofMap example_env (getChannelID example_env ''0xa1'' ''0x70'')) + 1 = 4"
    by (simp_all add: example_env_def)
  have run: "transfer_nonces (run_schedule recording_chain example_env []
      (one_at_a_time ''0xa1'' ''0x70'' [Asset 5, ReBalance 10, Asset 7])) = [8, 9]
   \<and> rebalance_nonces (run_schedule recording_chain example_env []
      (one_at_a_time ''0xa1'' ''0x70'' [Asset 5, ReBalance 10, Asset 7])) = [4]"
    by (simp add: one_at_a_time_def SendAsset_def ProposeReBalance_def send_and_listen_def
        BuildAppChainTX_def GetLastCommitBlock_def SignatureToHex_def recording_chain_def
        soliditySha3_rebalance uint256_error_None example_env_def Let_def)
  from one_at_a_time_nonces [of recording_chain example_env "''0xa1''" "''0x70''"
         "[Asset 5, ReBalance 10, Asset 7]", OF ids chans opn t_bp t_rp r_rp r_bp opened]
  show ?thesis
    unfolding stored using run by simp
qed

subsection \<open>The poller: a failing handler\<close>

text \<open>
  C7, on the code. The watch item has two \<^verbatim>\<open>Transfer\<close> events that pass the filter, and the
  handler's promise rejects for the first. \<^verbatim>\<open>processAllEvent\<close>, which \<^verbatim>\<open>start\<close> uses, awaits
  the handler outside any \<^verbatim>\<open>try\<close>: it rejects after the first event and never calls the
  handler for the second. \<^verbatim>\<open>processEvent\<close>, which wraps each call in \<^verbatim>\<open>try\<close>, reaches both
  events. In \<^verbatim>\<open>start\<close> the rejection is dropped: the second watch item is still scanned and
  the loop goes on.
\<close>

theorem processAllEvent_stops_at_rejection:
  "processAllEvent 90 100 watchItem_1 = ([event_1], Rejected ''channelMap call failed'')
   \<and> processEvent [event_1, event_2]
         \<lparr>ls_filter = [(''to'', ''0xc9'')], ls_handler = rejecting_once\<rparr>
       = ([event_1, event_2], Resolved JUndefined)
   \<and> start example_watcher 0 100 [] =
       ([\<lparr>tk_fromBlock = 90, tk_toBlock = 100,
          tk_started = [([event_1], Rejected ''channelMap call failed''),
                        ([event_3], Resolved JUndefined)]\<rparr>], Pending)"
  by (simp add: processAllEvent_def processEvent_def start_def start_lastBlockNumber_def
        example_watcher_def watchItem_1_def watchItem_2_def example_listener_def
        rejecting_once_def event_1_def event_2_def event_3_def toLowerCase_examples)

subsection \<open>The poller: where it starts\<close>

text \<open>
  C8, as the code has it. The margin is the literal 10 in \<^verbatim>\<open>start\<close>: two watchers that
  differ in every parameter of the constructor both start 10 blocks behind the head 1000.
\<close>

theorem start_margin_fixed:
  "start_lastBlockNumber eth_watcher 0 1000 = 1000 - 10
   \<and> start_lastBlockNumber cita_watcher 0 1000 = 1000 - 10"
  by (simp add: start_lastBlockNumber_def)

text \<open>
  C8, amended. When the poller is started without a block number (or with 0), the first
  scanned block is the current head minus 10, for every watcher: the margin is the fixed
  constant 10 and no parameter of the watcher changes it.
\<close>

theorem start_lastBlockNumber_default:
  "start_lastBlockNumber w 0 currentBlockNumber = currentBlockNumber - 10"
  by (simp add: start_lastBlockNumber_def)

subsection \<open>\<^verbatim>\<open>Deposit\<close>\<close>

text \<open>
  C9, as the code has it. When the node reports an error for the broadcast,
  \<^verbatim>\<open>Deposit\<close> returns neither a hash nor a failure: its promise never settles. For a token
  other than the zero address the failed broadcast is the approval, and the deposit call
  is never broadcast.
\<close>

theorem Deposit_failed_broadcast_pending:
  "Deposit failing_broadcast_env 100 ''0x0000000000000000000000000000000000000000'' =
     (Pending,
      [Eth_sendSignedTransaction
         \<lparr>rt_from = ''0xc9'', rt_to = ''0xe1'',
          rt_data = providerDeposit_data ''0x0000000000000000000000000000000000000000'' 100,
          rt_value = 100, rt_gasLimit = 300000\<rparr>])
   \<and> fst (Deposit failing_broadcast_env 100 ''0x70'') = Pending
   \<and> map rt_data (sent_raw (snd (Deposit failing_broadcast_env 100 ''0x70''))) =
       [approve_data ''0xe1'' 100]"
  by (simp add: Deposit_def SendEthTransaction_def failing_broadcast_env_def example_env_def)

text \<open>
  C9, amended. If \<^verbatim>\<open>token\<close> is the zero address, \<^verbatim>\<open>Deposit\<close> broadcasts a single
  transaction to the primary-chain contract, with value \<^verbatim>\<open>amount\<close> and the call
  \<^verbatim>\<open>providerDeposit(token, amount)\<close>. Otherwise it first broadcasts a transaction of zero
  value with the call \<^verbatim>\<open>approve(contract, amount)\<close> and, once the hash of that one has
  arrived, the deposit call with zero value to the contract. \<^verbatim>\<open>Deposit\<close> returns the hash of
  the deposit transaction when the node reports it; when a broadcast reports an error the
  call never settles, and after a failed approval nothing more is broadcast.
\<close>

theorem Deposit_transactions:
  "(let contract = ethPN_address e;
        depositTx = \<lparr>rt_from = cpProvider_address e, rt_to = contract,
                      rt_data = providerDeposit_data token amount,
                      rt_value = (if token = ADDRESS_ZERO e then amount else 0),
                      rt_gasLimit = 300000\<rparr>
    in if token = ADDRESS_ZERO e
       then Deposit e amount token =
              (settle (sendSignedTransaction e depositTx), [Eth_sendSignedTransaction depositTx])
       else (case sent_raw (snd (Deposit e amount token)) of
               [] \<Rightarrow> False
             | approveTx # later \<Rightarrow>
                 rt_data approveTx = approve_data contract amount \<and> rt_value approveTx = 0
               \<and> (case sendSignedTransaction e approveTx of
                     TransactionHash h \<Rightarrow>
                       later = [depositTx]
                     \<and> fst (Deposit e amount token) = settle (sendSignedTransaction e depositTx)
                   | BroadcastError err \<Rightarrow>
                       later = [] \<and> fst (Deposit e amount token) = Pending)))"
  by (simp add: Deposit_def SendEthTransaction_eq Let_def settle_def split: broadcast.splits)

text \<open>Both paths in the example environment, whose node accepts every broadcast.\<close>

lemma Deposit_examples:
  "Deposit example_env 100 ''0x0000000000000000000000000000000000000000'' =
     (Resolved (JString ''0x7b''),
      [Eth_sendSignedTransaction
         \<lparr>rt_from = ''0xc9'', rt_to = ''0xe1'',
          rt_data = providerDeposit_data ''0x0000000000000000000000000000000000000000'' 100,
          rt_value = 100, rt_gasLimit = 300000\<rparr>])"
  "fst (Deposit example_env 100 ''0x70'') = Resolved (JString ''0x7b'')"
  "map rt_data (sent_raw (snd (Deposit example_env 100 ''0x70''))) =
     [approve_data ''0xe1'' 100, providerDeposit_data ''0x70'' 100]"
  "map rt_value (sent_raw (snd (Deposit example_env 100 ''0x70''))) = [0, 0]"
  by (simp_all add: Deposit_def SendEthTransaction_def example_env_def)

subsection \<open>\<^verbatim>\<open>GetAllTXs\<close>\<close>

text \<open>
  What \<^verbatim>\<open>GetAllTXs\<close> does with events that have no number \<^verbatim>\<open>nonce\<close> of their own, as the
  events of \<^verbatim>\<open>getPastEvents\<close> are: the lists keep the order in which they were returned, and
  the amounts are differences of successive balances in that order, the running balance
  going on from the incoming list to the outgoing one.
\<close>

lemma GetAllTXs_no_own_nonce:
  assumes "\<forall>tx \<in> set inTXs. map_of (pe_numbers tx) ''nonce'' = None"
    and "\<forall>tx \<in> set outTXs. map_of (pe_numbers tx) ''nonce'' = None"
  shows "map tx_id (fst (GetAllTXs inTXs outTXs token)) = map pe_transactionHash inTXs
       \<and> map tx_id (snd (GetAllTXs inTXs outTXs token)) = map pe_transactionHash outTXs
       \<and> map tx_amount (fst (GetAllTXs inTXs outTXs token)) =
           amounts_from 0 (map pe_balance inTXs)
       \<and> map tx_amount (snd (GetAllTXs inTXs outTXs token)) =
           amounts_from (last (0 # map pe_balance inTXs)) (map pe_balance outTXs)"
proof -
  have "fst (GetAllTXs inTXs outTXs token) = fst (map_getTX 0 inTXs)"
    by (simp add: GetAllTXs_def Let_def case_prod_unfold js_sort_no_own_nonce [OF assms(1)])
  moreover have "snd (GetAllTXs inTXs outTXs token) =
      fst (map_getTX (snd (map_getTX 0 inTXs)) outTXs)"
    by (simp add: GetAllTXs_def Let_def case_prod_unfold js_sort_no_own_nonce [OF assms(1)]
          js_sort_no_own_nonce [OF assms(2)])
  ultimately show ?thesis
    by (simp add: map_getTX_amounts map_getTX_ids map_getTX_last)
qed

text \<open>
  C10, on the code. The chain returns two incoming events with the nonces 2 and 1 (balances
  30 and 10) and one outgoing event (balance 5); the nonces are fields of
  \<^verbatim>\<open>returnValues\<close>, as \<^verbatim>\<open>channelID\<close> and \<^verbatim>\<open>balance\<close> are. The comparator reads
  \<^verbatim>\<open>tx.nonce\<close>, a property that the event objects do not have, so nothing is sorted: the incoming events stay in the order 2, 1 with the amounts 30 and 10 - 30, and
  the outgoing amount is 5 - 10. Sorted by nonce the amounts would be 10, 20 and 5 - 30.
\<close>

theorem GetAllTXs_not_sorted:
  "GetAllTXs example_inTXs example_outTXs ''0x70'' =
     ([\<lparr>tx_id = ''0x02'', tx_amount = 30, tx_rest = [(''nonce'', ''2'')]\<rparr>,
       \<lparr>tx_id = ''0x01'', tx_amount = - 20, tx_rest = [(''nonce'', ''1'')]\<rparr>],
      [\<lparr>tx_id = ''0x03'', tx_amount = - 5, tx_rest = [(''nonce'', ''1'')]\<rparr>])"
  by (simp add: GetAllTXs_def getTX_def cmpNonce_def example_inTXs_def example_outTXs_def Let_def)

end
